theory Spec2Isabelle
  imports Main "HOL-Library.List_Lexorder" "HOL-Library.Multiset" "HOL-Library.Sublist"
begin

section \<open>SignalGraph intelligence skeleton: discovery, preview, records\<close>

text \<open>
  A shallow embedding of \<^verbatim>\<open>src/intelligence-python/main.py\<close>. The program reads the
  file system, so every function of the source takes the file system as an explicit
  argument; a Python exception is a value of \<open>py_exception\<close>, and a function that can
  raise returns \<open>py_exception + 'a\<close> with \<open>Inl\<close> the exception.
\<close>

subsection \<open>Python strings\<close>

text \<open>
  A Python \<^verbatim>\<open>str\<close> is a sequence of Unicode code points; \<^verbatim>\<open>len\<close> counts code points
  and comparison is lexicographic by code point. A code point is a \<open>nat\<close>, a string a
  list of them, ordered by the lexicographic order of \<open>List_Lexorder\<close>.
  \<open>ascii\<close> writes a literal of the source.
\<close>

type_synonym pystr = "nat list"

definition ascii :: "string \<Rightarrow> pystr" where
  "ascii s = map of_char s"

definition newline :: nat where
  "newline = 10"

definition space :: nat where
  "space = 32"

definition slash :: nat where
  "slash = 47"

text \<open>\<^verbatim>\<open>text[:length]\<close>: a negative bound counts from the end of the string.\<close>

definition slice_to :: "'a list \<Rightarrow> int \<Rightarrow> 'a list" where
  "slice_to text n =
     (if 0 \<le> n then take (nat n) text else take (nat (int (length text) + n)) text)"

text \<open>\<^verbatim>\<open>s.replace(old, new)\<close> for one-character \<^verbatim>\<open>old\<close> and \<^verbatim>\<open>new\<close>.\<close>

definition replace :: "'a \<Rightarrow> 'a \<Rightarrow> 'a list \<Rightarrow> 'a list" where
  "replace old new s = map (\<lambda>c. if c = old then new else c) s"

text \<open>\<^verbatim>\<open>sep.join(xs)\<close>.\<close>

fun join :: "pystr \<Rightarrow> pystr list \<Rightarrow> pystr" where
  "join sep [] = []"
| "join sep [x] = x"
| "join sep (x # y # ys) = x @ sep @ join sep (y # ys)"

text \<open>\<^verbatim>\<open>s.split('/')\<close>: the pieces between the separators, empty pieces included.\<close>

fun split_sep :: "pystr \<Rightarrow> pystr list" where
  "split_sep [] = [[]]"
| "split_sep (c # cs) =
     (if c = slash then [] # split_sep cs
      else (case split_sep cs of [] \<Rightarrow> [[c]] | w # ws \<Rightarrow> (c # w) # ws))"

text \<open>\<^verbatim>\<open>str(n)\<close> for a length: the decimal digits of a natural number.\<close>

fun str_nat :: "nat \<Rightarrow> pystr" where
  "str_nat n = (if n < 10 then [48 + n] else str_nat (n div 10) @ [48 + n mod 10])"

declare str_nat.simps [simp del]

subsection \<open>Paths\<close>

text \<open>
  A \<^verbatim>\<open>pathlib.Path\<close> on POSIX: a root (\<^verbatim>\<open>''\<close>, \<^verbatim>\<open>'/'\<close> or \<^verbatim>\<open>'//'\<close>) and the list of
  its components. The constructor drops empty components and \<^verbatim>\<open>'.'\<close>;
  \<^verbatim>\<open>str\<close> joins them again, \<^verbatim>\<open>name\<close> is the last component, and \<^verbatim>\<open>iterdir\<close>
  yields the directory's path extended by one entry name.
\<close>

datatype path = PurePath (root: pystr) (parts: "pystr list")

definition Path :: "pystr \<Rightarrow> path" where
  "Path s =
     PurePath
       (if take 2 s = [slash, slash] \<and> take 3 s \<noteq> [slash, slash, slash] then [slash, slash]
        else if take 1 s = [slash] then [slash] else [])
       (filter (\<lambda>x. x \<noteq> [] \<and> x \<noteq> ascii ''.'') (split_sep s))"

definition str_path :: "path \<Rightarrow> pystr" where
  "str_path p =
     (if root p = [] \<and> parts p = [] then ascii ''.'' else root p @ join [slash] (parts p))"

definition name :: "path \<Rightarrow> pystr" where
  "name p = (if parts p = [] then [] else last (parts p))"

definition child :: "path \<Rightarrow> pystr \<Rightarrow> path" where
  "child p n = PurePath (root p) (parts p @ [n])"

subsection \<open>Exceptions\<close>

text \<open>
  The exceptions the program meets. Each \<open>OSError\<close>, \<open>UnicodeDecodeError\<close> and
  \<open>UnicodeEncodeError\<close> is a subclass of \<^verbatim>\<open>Exception\<close> and carries the text
  \<^verbatim>\<open>str(e)\<close> gives; \<^verbatim>\<open>SystemExit\<close> derives from \<^verbatim>\<open>BaseException\<close> only, so
  \<^verbatim>\<open>except Exception\<close> does not catch it.
\<close>

datatype exc_class =
    FileNotFoundError | IsADirectoryError | NotADirectoryError
  | PermissionError | UnicodeDecodeError | UnicodeEncodeError | OSError

datatype py_exception = Exception exc_class pystr | SystemExit int

fun is_Exception :: "py_exception \<Rightarrow> bool" where
  "is_Exception (Exception c m) = True"
| "is_Exception (SystemExit n) = False"

fun str_exc :: "py_exception \<Rightarrow> pystr" where
  "str_exc (Exception c m) = m"
| "str_exc (SystemExit n) = (if n < 0 then ascii ''-'' @ str_nat (nat (- n)) else str_nat (nat n))"

subsection \<open>The file system\<close>

text \<open>
  What the program can observe of the platform. Looking a path up, without following a
  symbolic link at its end, finds nothing (\<open>Absent\<close>: the errno is \<^verbatim>\<open>ENOENT\<close> or
  \<^verbatim>\<open>ENOTDIR\<close>), finds a node, or is refused (\<open>Inaccessible\<close>) with an \<^verbatim>\<open>OSError\<close> of
  another errno: \<^verbatim>\<open>EACCES\<close> below a directory that may not be searched,
  \<^verbatim>\<open>ENAMETOOLONG\<close> for a name longer than the platform allows. A path that the
  platform cannot take at all (an embedded NUL, for which \<^verbatim>\<open>exists\<close> and \<^verbatim>\<open>is_file\<close>
  answer \<^verbatim>\<open>False\<close>) counts as \<open>Absent\<close>.

  A regular file holds either the text that \<^verbatim>\<open>read_text(encoding="utf-8")\<close> returns
  for it (decoded, with \<^verbatim>\<open>"\r\n"\<close> and \<^verbatim>\<open>"\r"\<close> already translated to \<^verbatim>\<open>"\n"\<close>) or
  the reason the read fails (permission, undecodable bytes, an I/O error). A directory
  holds its entry names in the order the platform enumerates them, or the \<^verbatim>\<open>OSError\<close>
  that \<^verbatim>\<open>os.listdir\<close> raises for it (a directory that may not be read). A symbolic
  link holds the path it leads to. Any other node (device, socket) is \<open>Special\<close>.
  \<open>os_message\<close> is the message of the \<^verbatim>\<open>OSError\<close> the platform raises for a path.
\<close>

datatype read_failure = Permission_denied | Undecodable pystr | Io_failure pystr

datatype content = Text pystr | Unreadable read_failure

datatype listing = Entries "pystr list" | Unlistable exc_class pystr

datatype node = Regular content | Directory listing | Special content | Symlink path

datatype lookup = Absent | Present node | Inaccessible exc_class pystr

record filesystem =
  node_at :: "path \<Rightarrow> lookup"
  os_message :: "exc_class \<Rightarrow> path \<Rightarrow> pystr"

definition os_error :: "filesystem \<Rightarrow> exc_class \<Rightarrow> path \<Rightarrow> py_exception" where
  "os_error fs c p = Exception c (os_message fs c p)"

text \<open>
  \<^verbatim>\<open>os.stat\<close> follows symbolic links, at most \<open>symlink_limit\<close> of them (40 on Linux);
  one more is the errno \<^verbatim>\<open>ELOOP\<close>.
\<close>

datatype stat_result = Missing | Too_many_links | Found node | Refused exc_class pystr

definition symlink_limit :: nat where
  "symlink_limit = 40"

fun follow :: "filesystem \<Rightarrow> nat \<Rightarrow> path \<Rightarrow> stat_result" where
  "follow fs 0 p = Too_many_links"
| "follow fs (Suc k) p =
     (case node_at fs p of
        Absent \<Rightarrow> Missing
      | Inaccessible c m \<Rightarrow> Refused c m
      | Present (Symlink q) \<Rightarrow> follow fs k q
      | Present n \<Rightarrow> Found n)"

definition stat :: "filesystem \<Rightarrow> path \<Rightarrow> stat_result" where
  "stat fs p = follow fs (Suc symlink_limit) p"

text \<open>
  \<^verbatim>\<open>Path.exists\<close> and \<^verbatim>\<open>Path.is_file\<close> call \<^verbatim>\<open>stat\<close> and answer \<^verbatim>\<open>False\<close> for the
  errnos \<^verbatim>\<open>ENOENT\<close>, \<^verbatim>\<open>ENOTDIR\<close>, \<^verbatim>\<open>EBADF\<close> and \<^verbatim>\<open>ELOOP\<close>; every other
  \<^verbatim>\<open>OSError\<close> of \<^verbatim>\<open>stat\<close> is raised again. \<^verbatim>\<open>is_file\<close> is true of a symbolic link
  that leads to a regular file.
\<close>

definition exists_path :: "filesystem \<Rightarrow> path \<Rightarrow> py_exception + bool" where
  "exists_path fs p =
     (case stat fs p of
        Missing \<Rightarrow> Inr False
      | Too_many_links \<Rightarrow> Inr False
      | Found n \<Rightarrow> Inr True
      | Refused c m \<Rightarrow> Inl (Exception c m))"

definition is_file :: "filesystem \<Rightarrow> path \<Rightarrow> py_exception + bool" where
  "is_file fs p =
     (case stat fs p of
        Missing \<Rightarrow> Inr False
      | Too_many_links \<Rightarrow> Inr False
      | Found (Regular c) \<Rightarrow> Inr True
      | Found n \<Rightarrow> Inr False
      | Refused c m \<Rightarrow> Inl (Exception c m))"

text \<open>\<^verbatim>\<open>Path.iterdir\<close> is \<^verbatim>\<open>os.listdir\<close>, which raises what the platform reports.\<close>

definition iterdir :: "filesystem \<Rightarrow> path \<Rightarrow> py_exception + path list" where
  "iterdir fs p =
     (case stat fs p of
        Missing \<Rightarrow> Inl (os_error fs FileNotFoundError p)
      | Too_many_links \<Rightarrow> Inl (os_error fs OSError p)
      | Refused c m \<Rightarrow> Inl (Exception c m)
      | Found (Directory (Entries names)) \<Rightarrow> Inr (map (child p) names)
      | Found (Directory (Unlistable c m)) \<Rightarrow> Inl (Exception c m)
      | Found n \<Rightarrow> Inl (os_error fs NotADirectoryError p))"

fun read_content :: "filesystem \<Rightarrow> path \<Rightarrow> content \<Rightarrow> py_exception + pystr" where
  "read_content fs p (Text t) = Inr t"
| "read_content fs p (Unreadable Permission_denied) = Inl (os_error fs PermissionError p)"
| "read_content fs p (Unreadable (Undecodable m)) = Inl (Exception UnicodeDecodeError m)"
| "read_content fs p (Unreadable (Io_failure m)) = Inl (Exception OSError m)"

definition read_text :: "filesystem \<Rightarrow> path \<Rightarrow> py_exception + pystr" where
  "read_text fs p =
     (case stat fs p of
        Missing \<Rightarrow> Inl (os_error fs FileNotFoundError p)
      | Too_many_links \<Rightarrow> Inl (os_error fs OSError p)
      | Refused c m \<Rightarrow> Inl (Exception c m)
      | Found (Directory l) \<Rightarrow> Inl (os_error fs IsADirectoryError p)
      | Found (Regular c) \<Rightarrow> read_content fs p c
      | Found (Special c) \<Rightarrow> read_content fs p c
      | Found (Symlink q) \<Rightarrow> Inl (os_error fs OSError p))"

subsection \<open>The functions of main.py\<close>

text \<open>
  \<^verbatim>\<open>list_files\<close>: \<^verbatim>\<open>path.exists()\<close> may raise; when it answers \<^verbatim>\<open>False\<close> the result
  is the empty list. Otherwise the list comprehension enumerates the directory and asks
  \<^verbatim>\<open>is_file\<close> of each entry in turn, \<open>filter_files\<close>; the first exception ends it. The
  entries kept are sorted by name with Python's stable sort. No exception is caught.
\<close>

fun filter_files :: "filesystem \<Rightarrow> path list \<Rightarrow> py_exception + path list" where
  "filter_files fs [] = Inr []"
| "filter_files fs (q # qs) =
     (case is_file fs q of
        Inl e \<Rightarrow> Inl e
      | Inr b \<Rightarrow>
          (case filter_files fs qs of
             Inl e \<Rightarrow> Inl e
           | Inr files \<Rightarrow> Inr (if b then q # files else files)))"

definition list_files :: "filesystem \<Rightarrow> path \<Rightarrow> py_exception + path list" where
  "list_files fs p =
     (case exists_path fs p of
        Inl e \<Rightarrow> Inl e
      | Inr ex \<Rightarrow>
          if \<not> ex then Inr []
          else (case iterdir fs p of
                  Inl e \<Rightarrow> Inl e
                | Inr entries \<Rightarrow>
                    (case filter_files fs entries of
                       Inl e \<Rightarrow> Inl e
                     | Inr files \<Rightarrow> Inr (sort_key name files))))"

text \<open>
  \<^verbatim>\<open>preview_file\<close>: the \<^verbatim>\<open>try\<close> body reads, slices and replaces; the handler
  \<^verbatim>\<open>except Exception as e\<close> takes every exception that is an \<^verbatim>\<open>Exception\<close> and
  lets any other pass. The bound \<open>n\<close> is the parameter \<^verbatim>\<open>length\<close> of the source
  (default 200).
\<close>

definition preview_file :: "filesystem \<Rightarrow> path \<Rightarrow> int \<Rightarrow> py_exception + pystr" where
  "preview_file fs p n =
     (case read_text fs p of
        Inr text \<Rightarrow> Inr (replace newline space (slice_to text n))
      | Inl e \<Rightarrow>
          if is_Exception e then Inr (ascii ''<error reading file: '' @ str_exc e @ ascii ''>'')
          else Inl e)"

text \<open>
  The dictionaries of the source are JSON-like values; a \<^verbatim>\<open>dict\<close> keeps its keys in
  insertion order, so it is an association list.
\<close>

datatype pyval = Str pystr | List "pyval list" | Dict "(pystr \<times> pyval) list"

definition default_length :: int where
  "default_length = 200"

definition process_file :: "filesystem \<Rightarrow> path \<Rightarrow> py_exception + pyval" where
  "process_file fs p =
     (case preview_file fs p default_length of
        Inl e \<Rightarrow> Inl e
      | Inr preview \<Rightarrow>
          Inr (Dict
            [(ascii ''file'', Str (str_path p)),
             (ascii ''preview'', Str preview),
             (ascii ''entities'', List []),
             (ascii ''relations'', List []),
             (ascii ''provenance'', Dict [(ascii ''source'', Str (str_path p))])]))"

text \<open>
  \<^verbatim>\<open>process_files\<close>: the loop appends to \<^verbatim>\<open>results["files"]\<close>, the accumulator
  \<open>acc\<close>; an exception of \<^verbatim>\<open>process_file\<close> would leave the loop.
\<close>

fun process_files_loop ::
  "filesystem \<Rightarrow> path list \<Rightarrow> pyval list \<Rightarrow> py_exception + pyval list" where
  "process_files_loop fs [] acc = Inr acc"
| "process_files_loop fs (p # ps) acc =
     (case process_file fs p of
        Inl e \<Rightarrow> Inl e
      | Inr r \<Rightarrow> process_files_loop fs ps (acc @ [r]))"

definition process_files :: "filesystem \<Rightarrow> path list \<Rightarrow> py_exception + pyval" where
  "process_files fs paths =
     (case process_files_loop fs paths [] of
        Inl e \<Rightarrow> Inl e
      | Inr files \<Rightarrow> Inr (Dict [(ascii ''files'', List files)]))"

subsection \<open>The command line\<close>

text \<open>
  The parsed arguments: \<^verbatim>\<open>--data-dir\<close> (default \<^verbatim>\<open>data/\<close>), \<^verbatim>\<open>--file\<close> and
  \<^verbatim>\<open>--output\<close> (default \<^verbatim>\<open>None\<close>). \<^verbatim>\<open>if args.file:\<close> is false for \<^verbatim>\<open>None\<close>
  and for the empty string; \<open>given\<close> is the value when the test is true.
\<close>

record args =
  data_dir :: pystr
  "file" :: "pystr option"
  "output" :: "pystr option"

definition default_args :: args where
  "default_args = \<lparr>data_dir = ascii ''data/'', file = None, output = None\<rparr>"

fun given :: "pystr option \<Rightarrow> pystr option" where
  "given None = None"
| "given (Some s) = (if s = [] then None else Some s)"

text \<open>
  \<^verbatim>\<open>write_text\<close> opens the path for writing, following symbolic links to the path
  \<open>target\<close>. It fails where the platform refuses the path, on a directory, and under a
  parent that is missing or not a directory. Otherwise a regular file holds the text
  afterwards, a new one being listed by its parent, and a special node takes the text
  and stays as it is. Write permissions are not modelled, and the text is taken to be
  encodable as UTF-8, as the ASCII text of \<^verbatim>\<open>json.dumps\<close> is.
\<close>

definition parent :: "path \<Rightarrow> path" where
  "parent p = PurePath (root p) (butlast (parts p))"

fun target :: "filesystem \<Rightarrow> nat \<Rightarrow> path \<Rightarrow> path" where
  "target fs 0 p = p"
| "target fs (Suc k) p =
     (case node_at fs p of Present (Symlink q) \<Rightarrow> target fs k q | _ \<Rightarrow> p)"

definition add_entry :: "filesystem \<Rightarrow> path \<Rightarrow> pystr \<Rightarrow> filesystem" where
  "add_entry fs d n =
     (let t = target fs symlink_limit d in
      case node_at fs t of
        Present (Directory (Entries names)) \<Rightarrow>
          fs\<lparr>node_at := (node_at fs)(t := Present (Directory (Entries (names @ [n]))))\<rparr>
      | _ \<Rightarrow> fs)"

definition write_text :: "filesystem \<Rightarrow> path \<Rightarrow> pystr \<Rightarrow> py_exception + filesystem" where
  "write_text fs p s =
     (let q = target fs symlink_limit p in
      case node_at fs q of
        Inaccessible c m \<Rightarrow> Inl (Exception c m)
      | Present (Symlink r) \<Rightarrow> Inl (os_error fs OSError p)
      | Present (Directory l) \<Rightarrow> Inl (os_error fs IsADirectoryError p)
      | Present (Special c) \<Rightarrow> Inr fs
      | Present (Regular c) \<Rightarrow>
          Inr (fs\<lparr>node_at := (node_at fs)(q := Present (Regular (Text s)))\<rparr>)
      | Absent \<Rightarrow>
          (case stat fs (parent q) of
             Found (Directory l) \<Rightarrow>
               Inr ((add_entry fs (parent q) (name q))
                    \<lparr>node_at := (node_at (add_entry fs (parent q) (name q)))
                       (q := Present (Regular (Text s)))\<rparr>)
           | Found n \<Rightarrow> Inl (os_error fs NotADirectoryError p)
           | Refused c m \<Rightarrow> Inl (Exception c m)
           | Missing \<Rightarrow> Inl (os_error fs FileNotFoundError p)
           | Too_many_links \<Rightarrow> Inl (os_error fs OSError p)))"

text \<open>
  \<^verbatim>\<open>print\<close> appends a line to standard output, or raises \<^verbatim>\<open>UnicodeEncodeError\<close> when
  the encoding of standard output has no bytes for the line (a lone surrogate from the
  command line under a strict UTF-8 locale). The parameter \<open>enc\<close> gives the message of
  that error for a line, \<open>None\<close> for a line that can be written.
\<close>

definition print_line ::
  "(pystr \<Rightarrow> pystr option) \<Rightarrow> pystr list \<Rightarrow> pystr \<Rightarrow> py_exception + pystr list" where
  "print_line enc out s =
     (case enc s of
        None \<Rightarrow> Inr (out @ [s])
      | Some m \<Rightarrow> Inl (Exception UnicodeEncodeError m))"

text \<open>
  One run of \<^verbatim>\<open>main\<close>: the lines printed, the file system afterwards, and the
  exception that ended the run, if any. The exit status is 0 when \<^verbatim>\<open>main\<close>
  returns, the code of a \<^verbatim>\<open>SystemExit\<close>, and 1 for any other uncaught exception.
\<close>

record run =
  stdout :: "pystr list"
  files_after :: filesystem
  raised :: "py_exception option"

fun exit_code :: "run \<Rightarrow> int" where
  "exit_code r =
     (case raised r of None \<Rightarrow> 0 | Some (SystemExit n) \<Rightarrow> n | Some (Exception c m) \<Rightarrow> 1)"

text \<open>
  \<^verbatim>\<open>main\<close>, with \<^verbatim>\<open>json.dumps(_, indent=2)\<close> as the parameter \<open>dumps\<close> and the
  encoding of standard output as \<open>enc\<close>. The first part chooses between the single file
  and the directory and yields the lines printed so far with the results, or with the
  exception raised; the second part prints or writes the JSON text.
\<close>

definition main ::
  "(pyval \<Rightarrow> pystr) \<Rightarrow> (pystr \<Rightarrow> pystr option) \<Rightarrow> filesystem \<Rightarrow> args \<Rightarrow> run" where
  "main dumps enc fs a =
     (case
        (case given (file a) of
           Some f \<Rightarrow>
             (let p = Path f in
              case exists_path fs p of
                Inl e \<Rightarrow> ([], Inl e)
              | Inr ex \<Rightarrow>
                  if \<not> ex then
                    (case print_line enc []
                            (ascii ''[intelligence] error: file not found: '' @ str_path p) of
                       Inl e \<Rightarrow> ([], Inl e)
                     | Inr out \<Rightarrow> (out, Inl (SystemExit 2)))
                  else
                    (case print_line enc []
                            (ascii ''[intelligence] processing single file: '' @ str_path p) of
                       Inl e \<Rightarrow> ([], Inl e)
                     | Inr out \<Rightarrow>
                         (out,
                          (case process_file fs p of
                             Inl e \<Rightarrow> Inl e
                           | Inr r \<Rightarrow> Inr (Dict [(ascii ''files'', List [r])])))))
         | None \<Rightarrow>
             (let data_path = Path (data_dir a) in
              case list_files fs data_path of
                Inl e \<Rightarrow> ([], Inl e)
              | Inr files \<Rightarrow>
                  (case print_line enc []
                          (ascii ''[intelligence] discovered '' @ str_nat (length files)
                             @ ascii '' files in '' @ str_path data_path) of
                     Inl e \<Rightarrow> ([], Inl e)
                   | Inr out \<Rightarrow> (out, process_files fs files))))
      of
        (out, Inl e) \<Rightarrow> \<lparr>stdout = out, files_after = fs, raised = Some e\<rparr>
      | (out, Inr results) \<Rightarrow>
          (let out_json = dumps results in
           case given (output a) of
             Some f \<Rightarrow>
               (let outpath = Path f in
                case write_text fs outpath out_json of
                  Inl e \<Rightarrow> \<lparr>stdout = out, files_after = fs, raised = Some e\<rparr>
                | Inr fs' \<Rightarrow>
                    (case print_line enc out
                            (ascii ''[intelligence] written output to '' @ str_path outpath) of
                       Inl e \<Rightarrow> \<lparr>stdout = out, files_after = fs', raised = Some e\<rparr>
                     | Inr out' \<Rightarrow> \<lparr>stdout = out', files_after = fs', raised = None\<rparr>))
           | None \<Rightarrow>
               (case print_line enc out out_json of
                  Inl e \<Rightarrow> \<lparr>stdout = out, files_after = fs, raised = Some e\<rparr>
                | Inr out' \<Rightarrow> \<lparr>stdout = out', files_after = fs, raised = None\<rparr>)))"

subsection \<open>An example file system\<close>

text \<open>
  The scenario of the specification, extended. The working directory holds \<^verbatim>\<open>data/\<close>,
  \<^verbatim>\<open>links/\<close> and \<^verbatim>\<open>locked/\<close>.
  \<^item> \<^verbatim>\<open>data/\<close> is enumerated as \<^verbatim>\<open>b.txt\<close>, \<^verbatim>\<open>a.txt\<close>, \<^verbatim>\<open>sub\<close>, \<^verbatim>\<open>c.bin\<close>, \<^verbatim>\<open>d.txt\<close>:
    \<^verbatim>\<open>b.txt\<close> holds \<^verbatim>\<open>"hello\nworld"\<close>, \<^verbatim>\<open>a.txt\<close> holds \<^verbatim>\<open>"xy"\<close>, \<^verbatim>\<open>sub\<close> is an empty
    directory, \<^verbatim>\<open>c.bin\<close> is not valid UTF-8 and \<^verbatim>\<open>d.txt\<close> holds \<^verbatim>\<open>a\<close>, U+2028, \<^verbatim>\<open>b\<close>.
  \<^item> \<^verbatim>\<open>links/\<close> holds three symbolic links: \<^verbatim>\<open>s.txt\<close> to \<^verbatim>\<open>data/a.txt\<close>, \<^verbatim>\<open>gone\<close> to
    the missing \<^verbatim>\<open>missing.txt\<close>, and \<^verbatim>\<open>sub\<close> to \<^verbatim>\<open>data/sub\<close>.
  \<^item> \<^verbatim>\<open>locked/\<close> has mode 000: it may be neither read nor searched, so \<^verbatim>\<open>locked/x\<close>
    is refused with \<^verbatim>\<open>EACCES\<close>.
  \<^item> A path with a component of more than 255 characters is refused with
    \<^verbatim>\<open>ENAMETOOLONG\<close>.
  The messages are those of CPython on Linux, with the path in single quotes.
\<close>

definition example_message :: "exc_class \<Rightarrow> path \<Rightarrow> pystr" where
  "example_message c p =
     (case c of
        FileNotFoundError \<Rightarrow> ascii ''[Errno 2] No such file or directory: ''
      | IsADirectoryError \<Rightarrow> ascii ''[Errno 21] Is a directory: ''
      | NotADirectoryError \<Rightarrow> ascii ''[Errno 20] Not a directory: ''
      | PermissionError \<Rightarrow> ascii ''[Errno 13] Permission denied: ''
      | _ \<Rightarrow> ascii ''[Errno 5] Input/output error: '')
     @ [39] @ str_path p @ [39]"

definition example_decode_message :: pystr where
  "example_decode_message =
     ascii [CHR 0x27] @ ascii ''utf-8'' @ ascii [CHR 0x27]
       @ ascii '' codec can't decode byte 0xff in position 0: invalid start byte''"

definition example_table :: "(path \<times> lookup) list" where
  "example_table =
     [(PurePath [] [],
         Present (Directory (Entries [ascii ''data'', ascii ''links'', ascii ''locked'']))),
      (PurePath [] [ascii ''data''],
         Present (Directory (Entries [ascii ''b.txt'', ascii ''a.txt'', ascii ''sub'',
           ascii ''c.bin'', ascii ''d.txt'']))),
      (PurePath [] [ascii ''data'', ascii ''b.txt''],
         Present (Regular (Text (ascii ''hello'' @ [newline] @ ascii ''world'')))),
      (PurePath [] [ascii ''data'', ascii ''a.txt''], Present (Regular (Text (ascii ''xy'')))),
      (PurePath [] [ascii ''data'', ascii ''sub''], Present (Directory (Entries []))),
      (PurePath [] [ascii ''data'', ascii ''c.bin''],
         Present (Regular (Unreadable (Undecodable example_decode_message)))),
      (PurePath [] [ascii ''data'', ascii ''d.txt''], Present (Regular (Text [97, 8232, 98]))),
      (PurePath [] [ascii ''links''],
         Present (Directory (Entries [ascii ''s.txt'', ascii ''gone'', ascii ''sub'']))),
      (PurePath [] [ascii ''links'', ascii ''s.txt''],
         Present (Symlink (PurePath [] [ascii ''data'', ascii ''a.txt'']))),
      (PurePath [] [ascii ''links'', ascii ''gone''],
         Present (Symlink (PurePath [] [ascii ''missing.txt'']))),
      (PurePath [] [ascii ''links'', ascii ''sub''],
         Present (Symlink (PurePath [] [ascii ''data'', ascii ''sub'']))),
      (PurePath [] [ascii ''locked''],
         Present (Directory (Unlistable PermissionError
           (example_message PermissionError (PurePath [] [ascii ''locked'']))))),
      (PurePath [] [ascii ''locked'', ascii ''x''],
         Inaccessible PermissionError
           (example_message PermissionError (PurePath [] [ascii ''locked'', ascii ''x''])))]"

definition example_fs :: filesystem where
  "example_fs =
     \<lparr>node_at = (\<lambda>p.
        if list_ex (\<lambda>c. 255 < length c) (parts p) then
          Inaccessible OSError
            (ascii ''[Errno 36] File name too long: '' @ [39] @ str_path p @ [39])
        else (case map_of example_table p of None \<Rightarrow> Absent | Some l \<Rightarrow> l)),
      os_message = example_message\<rparr>"

text \<open>The same contents, with \<^verbatim>\<open>data/\<close> enumerated in another order.\<close>

definition example_fs_reordered :: filesystem where
  "example_fs_reordered =
     example_fs\<lparr>node_at := (node_at example_fs)
       (PurePath [] [ascii ''data''] :=
          Present (Directory (Entries [ascii ''sub'', ascii ''d.txt'', ascii ''c.bin'',
            ascii ''b.txt'', ascii ''a.txt''])))\<rparr>"

text \<open>A name of 300 characters, longer than any file name of the platform.\<close>

definition long_name :: pystr where
  "long_name = replicate 300 97"

text \<open>
  The characters at which \<^verbatim>\<open>str.splitlines\<close> breaks a line: LF, VT, FF, CR, FS, GS,
  RS, NEL, LINE SEPARATOR and PARAGRAPH SEPARATOR. This is the reading of
  ``line-break characters of any kind'' in the specification.
\<close>

definition line_break :: "nat \<Rightarrow> bool" where
  "line_break c = (c \<in> {10, 11, 12, 13, 28, 29, 30, 133, 8232, 8233})"

section \<open>Properties\<close>

subsection \<open>Auxiliary facts\<close>

lemma ascii_eq_Nil [simp]: "ascii s = [] \<longleftrightarrow> s = []"
  by (simp add: ascii_def)

lemma length_ascii [simp]: "length (ascii s) = length s"
  by (simp add: ascii_def)

lemma read_content_is_Exception: "read_content fs p c = Inl e \<Longrightarrow> is_Exception e"
  by (induction fs p c rule: read_content.induct) (auto simp: os_error_def)

lemma read_text_is_Exception: "read_text fs p = Inl e \<Longrightarrow> is_Exception e"
  by (auto simp: read_text_def os_error_def split: stat_result.splits node.splits
      dest: read_content_is_Exception)

lemma preview_file_ok:
  "read_text fs p = Inr t \<Longrightarrow> preview_file fs p n = Inr (replace newline space (slice_to t n))"
  by (simp add: preview_file_def)

lemma preview_file_failed:
  assumes "read_text fs p = Inl e"
  shows "preview_file fs p n = Inr (ascii ''<error reading file: '' @ str_exc e @ ascii ''>'')"
  using assms read_text_is_Exception [OF assms] by (simp add: preview_file_def)

lemma preview_file_total: "\<exists>s. preview_file fs p n = Inr s"
proof (cases "read_text fs p")
  case (Inl e)
  then show ?thesis by (simp add: preview_file_failed)
next
  case (Inr t)
  then show ?thesis by (simp add: preview_file_ok)
qed

lemma length_slice_to: "0 \<le> n \<Longrightarrow> length (slice_to t n) = min (nat n) (length t)"
  by (simp add: slice_to_def)

lemma length_replace: "length (replace a b s) = length s"
  by (simp add: replace_def)

lemma replace_absent: "a \<noteq> b \<Longrightarrow> a \<notin> set (replace a b s)"
  by (auto simp: replace_def)

lemma newline_neq_space: "newline \<noteq> space"
  by (simp add: newline_def space_def)

lemma process_file_record:
  "preview_file fs p default_length = Inr pv \<Longrightarrow>
   process_file fs p = Inr (Dict
     [(ascii ''file'', Str (str_path p)),
      (ascii ''preview'', Str pv),
      (ascii ''entities'', List []),
      (ascii ''relations'', List []),
      (ascii ''provenance'', Dict [(ascii ''source'', Str (str_path p))])])"
  by (simp add: process_file_def)

lemma process_file_total: "\<exists>r. process_file fs p = Inr r"
  using preview_file_total [of fs p default_length] by (auto simp: process_file_def)

lemma process_files_loop_map:
  "map (process_file fs) ps = map Inr rs \<Longrightarrow> process_files_loop fs ps acc = Inr (acc @ rs)"
proof (induction ps arbitrary: acc rs)
  case Nil
  then show ?case by simp
next
  case (Cons p ps)
  from Cons.prems obtain r rs' where rs: "rs = r # rs'" and r: "process_file fs p = Inr r"
    and rest: "map (process_file fs) ps = map Inr rs'"
    by (cases rs) auto
  from Cons.IH [OF rest, of "acc @ [r]"] r rs show ?case by simp
qed

lemma process_file_map_total: "\<exists>rs. map (process_file fs) ps = map Inr rs"
proof (induction ps)
  case Nil
  then show ?case by simp
next
  case (Cons p ps)
  then obtain rs where "map (process_file fs) ps = map Inr rs" by blast
  moreover obtain r where "process_file fs p = Inr r" using process_file_total by blast
  ultimately have "map (process_file fs) (p # ps) = map Inr (r # rs)" by simp
  then show ?case by blast
qed

lemma process_files_map:
  "map (process_file fs) ps = map Inr rs \<Longrightarrow>
   process_files fs ps = Inr (Dict [(ascii ''files'', List rs)])"
  by (simp add: process_files_def process_files_loop_map)

lemma process_files_total: "\<exists>r. process_files fs ps = Inr r"
  using process_file_map_total [of fs ps] process_files_map by blast

lemma process_file_eq:
  "process_file fs p = Inr (Dict
     [(ascii ''file'', Str (str_path p)),
      (ascii ''preview'', Str (case read_text fs p of
          Inr t \<Rightarrow> replace newline space (slice_to t default_length)
        | Inl e \<Rightarrow> ascii ''<error reading file: '' @ str_exc e @ ascii ''>'')),
      (ascii ''entities'', List []),
      (ascii ''relations'', List []),
      (ascii ''provenance'', Dict [(ascii ''source'', Str (str_path p))])])"
  by (cases "read_text fs p")
    (simp_all add: process_file_record preview_file_failed preview_file_ok)

lemma isl_write_text: "isl (write_text fs p s) = isl (write_text fs p s')"
  by (simp add: write_text_def Let_def
      split: lookup.splits node.splits stat_result.splits listing.splits)

lemma print_line_accepted: "enc s = None \<Longrightarrow> print_line enc out s = Inr (out @ [s])"
  by (simp add: print_line_def)

lemma main_file_mode:
  assumes "given (file a) = Some f" and "exists_path fs (Path f) = Inr True"
    and "process_file fs (Path f) = Inr r" and "given (output a) = None"
    and "enc (ascii ''[intelligence] processing single file: '' @ str_path (Path f)) = None"
    and "enc (dumps (Dict [(ascii ''files'', List [r])])) = None"
  shows "main dumps enc fs a =
    \<lparr>stdout = [ascii ''[intelligence] processing single file: '' @ str_path (Path f),
               dumps (Dict [(ascii ''files'', List [r])])],
     files_after = fs, raised = None\<rparr>"
  using assms by (simp add: main_def print_line_accepted)

lemma main_directory_mode:
  assumes "given (file a) = None" and "list_files fs (Path (data_dir a)) = Inr files"
    and "process_files fs files = Inr results" and "given (output a) = None"
    and "enc (ascii ''[intelligence] discovered '' @ str_nat (length files)
                 @ ascii '' files in '' @ str_path (Path (data_dir a))) = None"
    and "enc (dumps results) = None"
  shows "main dumps enc fs a =
    \<lparr>stdout = [ascii ''[intelligence] discovered '' @ str_nat (length files)
                 @ ascii '' files in '' @ str_path (Path (data_dir a)),
               dumps results],
     files_after = fs, raised = None\<rparr>"
  using assms by (simp add: main_def print_line_accepted)

lemma main_directory_mode_written:
  assumes "given (file a) = None" and "list_files fs (Path (data_dir a)) = Inr files"
    and "process_files fs files = Inr results" and "given (output a) = Some out"
    and "write_text fs (Path out) (dumps results) = Inr fs'"
    and "enc (ascii ''[intelligence] discovered '' @ str_nat (length files)
                 @ ascii '' files in '' @ str_path (Path (data_dir a))) = None"
    and "enc (ascii ''[intelligence] written output to '' @ str_path (Path out)) = None"
  shows "main dumps enc fs a =
    \<lparr>stdout = [ascii ''[intelligence] discovered '' @ str_nat (length files)
                 @ ascii '' files in '' @ str_path (Path (data_dir a)),
               ascii ''[intelligence] written output to '' @ str_path (Path out)],
     files_after = fs', raised = None\<rparr>"
  using assms by (simp add: main_def print_line_accepted)

lemma main_completes:
  assumes results: "(\<exists>f. given (file a) = Some f \<and> exists_path fs (Path f) = Inr True)
      \<or> (given (file a) = None \<and> (\<exists>files. list_files fs (Path (data_dir a)) = Inr files))"
    and enc: "\<And>s. enc s = None"
    and out: "\<And>out. given (output a) = Some out \<Longrightarrow> \<not> isl (write_text fs (Path out) [])"
  shows "raised (main dumps enc fs a) = None"
proof -
  have w: "\<exists>fs'. write_text fs (Path out) s = Inr fs'" if "given (output a) = Some out" for out s
  proof -
    have "\<not> isl (write_text fs (Path out) s)"
      using out [OF that] isl_write_text [of fs "Path out" s "[]"] by simp
    then show ?thesis by (cases "write_text fs (Path out) s") auto
  qed
  from results show ?thesis
  proof
    assume "\<exists>f. given (file a) = Some f \<and> exists_path fs (Path f) = Inr True"
    then obtain f where f: "given (file a) = Some f" "exists_path fs (Path f) = Inr True"
      by blast
    obtain r where r: "process_file fs (Path f) = Inr r" using process_file_total by blast
    show ?thesis
    proof (cases "given (output a)")
      case None
      with f r show ?thesis by (simp add: main_def print_line_accepted enc)
    next
      case (Some out)
      obtain fs' where "write_text fs (Path out) (dumps (Dict [(ascii ''files'', List [r])])) = Inr fs'"
        using w [OF Some] by blast
      with f r Some show ?thesis by (simp add: main_def print_line_accepted enc)
    qed
  next
    assume "given (file a) = None \<and> (\<exists>files. list_files fs (Path (data_dir a)) = Inr files)"
    then obtain files where f: "given (file a) = None" "list_files fs (Path (data_dir a)) = Inr files"
      by blast
    obtain r where r: "process_files fs files = Inr r" using process_files_total by blast
    show ?thesis
    proof (cases "given (output a)")
      case None
      with f r show ?thesis by (simp add: main_def print_line_accepted enc)
    next
      case (Some out)
      obtain fs' where "write_text fs (Path out) (dumps r) = Inr fs'"
        using w [OF Some] by blast
      with f r Some show ?thesis by (simp add: main_def print_line_accepted enc)
    qed
  qed
qed

lemma main_discovery_raises:
  "given (file a) = None \<Longrightarrow> list_files fs (Path (data_dir a)) = Inl e \<Longrightarrow>
   main dumps enc fs a = \<lparr>stdout = [], files_after = fs, raised = Some e\<rparr>"
  by (simp add: main_def)

lemma main_exists_raises:
  "given (file a) = Some f \<Longrightarrow> exists_path fs (Path f) = Inl e \<Longrightarrow>
   main dumps enc fs a = \<lparr>stdout = [], files_after = fs, raised = Some e\<rparr>"
  by (simp add: main_def)

lemma list_files_missing: "exists_path fs p = Inr False \<Longrightarrow> list_files fs p = Inr []"
  by (simp add: list_files_def)

lemma list_files_exists_raises: "exists_path fs p = Inl e \<Longrightarrow> list_files fs p = Inl e"
  by (simp add: list_files_def)

lemma name_child [simp]: "name (child p n) = n"
  by (simp add: name_def child_def)

lemma insort_key_name_child:
  "insort_key name (child p n) (map (child p) ns) = map (child p) (insort n ns)"
  by (induction ns) simp_all

lemma sort_key_name_child:
  "sort_key name (map (child p) ns) = map (child p) (sort ns)"
  by (induction ns) (simp_all add: insort_key_name_child)

lemma filter_files_total:
  "\<forall>q\<in>set qs. \<exists>b. is_file fs q = Inr b \<Longrightarrow>
   filter_files fs qs = Inr (filter (\<lambda>q. is_file fs q = Inr True) qs)"
  by (induction qs) auto

lemma list_files_of_directory_node:
  assumes "stat fs p = Found (Directory (Entries names))"
    and "\<forall>n\<in>set names. \<exists>b. is_file fs (child p n) = Inr b"
  shows "list_files fs p =
    Inr (sort_key name (filter (\<lambda>q. is_file fs q = Inr True) (map (child p) names)))"
proof -
  from assms(2) have "filter_files fs (map (child p) names)
      = Inr (filter (\<lambda>q. is_file fs q = Inr True) (map (child p) names))"
    by (intro filter_files_total) auto
  with assms(1) show ?thesis
    by (simp add: list_files_def exists_path_def iterdir_def)
qed

lemma is_file_True_iff: "is_file fs q = Inr True \<longleftrightarrow> (\<exists>c. stat fs q = Found (Regular c))"
  by (auto simp: is_file_def split: stat_result.splits node.splits)

lemma sort_key_unique:
  assumes "mset xs = mset ys" and "inj_on f (set xs)"
  shows "sort_key f xs = sort_key f ys"
proof -
  have s: "set xs = set ys" using assms(1) by (rule mset_eq_setD)
  have "mset (map f (sort_key f xs)) = mset (map f (sort_key f ys))"
    by (simp add: assms(1))
  moreover have "sorted (map f (sort_key f xs))" "sorted (map f (sort_key f ys))"
    by simp_all
  ultimately have "map f (sort_key f xs) = map f (sort_key f ys)"
    by (metis properties_for_sort)
  moreover have "inj_on f (set (sort_key f xs) \<union> set (sort_key f ys))"
    using assms(2) s by simp
  ultimately show ?thesis by (simp add: inj_on_map_eq_map)
qed

lemma split_sep_no_slash: "slash \<notin> set s \<Longrightarrow> split_sep s = [s]"
  by (induction s) auto

lemma Path_single:
  "slash \<notin> set s \<Longrightarrow> s \<noteq> [] \<Longrightarrow> s \<noteq> ascii ''.'' \<Longrightarrow> Path s = PurePath [] [s]"
  by (cases s) (auto simp: Path_def split_sep_no_slash)

subsection \<open>Facts about the example file system\<close>

lemma follow_numeral:
  "follow fs (numeral k) p =
     (case node_at fs p of
        Absent \<Rightarrow> Missing
      | Inaccessible c m \<Rightarrow> Refused c m
      | Present (Symlink q) \<Rightarrow> follow fs (pred_numeral k) q
      | Present n \<Rightarrow> Found n)"
  by (simp add: numeral_eq_Suc)

lemma target_numeral:
  "target fs (numeral k) p =
     (case node_at fs p of Present (Symlink q) \<Rightarrow> target fs (pred_numeral k) q | _ \<Rightarrow> p)"
  by (simp add: numeral_eq_Suc)

lemmas example_simps =
  example_fs_def example_table_def example_message_def Path_def str_path_def ascii_def
  slash_def stat_def symlink_limit_def follow_numeral os_error_def

lemma example_c_bin:
  "read_text example_fs (Path (ascii ''data/c.bin''))
     = Inl (Exception UnicodeDecodeError example_decode_message)"
  by (simp add: read_text_def example_simps)

lemma example_c_bin_exists: "exists_path example_fs (Path (ascii ''data/c.bin'')) = Inr True"
  by (simp add: exists_path_def example_simps)

lemma example_list_files:
  "list_files example_fs (Path (ascii ''data/'')) =
     Inr [PurePath [] [ascii ''data'', ascii ''a.txt''],
          PurePath [] [ascii ''data'', ascii ''b.txt''],
          PurePath [] [ascii ''data'', ascii ''c.bin''],
          PurePath [] [ascii ''data'', ascii ''d.txt'']]"
  by (simp add: list_files_def exists_path_def iterdir_def is_file_def child_def name_def
      example_simps)

lemma example_missing:
  "read_text example_fs (Path (ascii ''missing.txt''))
     = Inl (Exception FileNotFoundError
         (ascii ''[Errno 2] No such file or directory: '' @ [39] @ ascii ''missing.txt'' @ [39]))"
  by (simp add: read_text_def example_simps)

lemma example_b_txt:
  "read_text example_fs (Path (ascii ''data/b.txt''))
     = Inr (ascii ''hello'' @ [newline] @ ascii ''world'')"
  by (simp add: read_text_def example_simps)

lemma example_d_txt:
  "read_text example_fs (Path (ascii ''data/d.txt'')) = Inr [97, 8232, 98]"
  by (simp add: read_text_def example_simps)

lemma example_long_missing:
  "read_text example_fs (Path (ascii ''aaaaaaaaaaaaaaaaaaaaaaaaaaaaaaaaaaaaaaaaaaaaaaaaaaaaaaaaaaaaaaaaaaaaaaaaaaaaaaaaaaaaaaaaaaaaaaaaaaaaaaaaaaaaaaaaaaaaaaaaaaaaaaaaaaaaaaaaaaaaaaaaaaaaaaaaaaaaaaaaaaaaaaaaaaaaaaaaaaaa''))
     = Inl (Exception FileNotFoundError
         (ascii ''[Errno 2] No such file or directory: '' @ [39] @ ascii ''aaaaaaaaaaaaaaaaaaaaaaaaaaaaaaaaaaaaaaaaaaaaaaaaaaaaaaaaaaaaaaaaaaaaaaaaaaaaaaaaaaaaaaaaaaaaaaaaaaaaaaaaaaaaaaaaaaaaaaaaaaaaaaaaaaaaaaaaaaaaaaaaaaaaaaaaaaaaaaaaaaaaaaaaaaaaaaaaaaaa'' @ [39]))"
  by (simp add: read_text_def example_simps)

lemma example_data_dir:
  "stat example_fs (Path (ascii ''data/''))
     = Found (Directory (Entries [ascii ''b.txt'', ascii ''a.txt'', ascii ''sub'',
         ascii ''c.bin'', ascii ''d.txt'']))"
  by (simp add: example_simps)

lemma example_nonexistent: "exists_path example_fs (Path (ascii ''nonexistent/'')) = Inr False"
  by (simp add: exists_path_def example_simps)

lemma example_str_path_nonexistent:
  "str_path (Path (ascii ''nonexistent/'')) = ascii ''nonexistent''"
  by (simp add: example_simps)

lemma example_write_out_json:
  "\<not> isl (write_text example_fs (Path (ascii ''out.json'')) s)"
  by (simp add: write_text_def parent_def target_numeral Let_def example_simps)

lemma example_missing_exists: "exists_path example_fs (Path (ascii ''missing.txt'')) = Inr False"
  by (simp add: exists_path_def example_simps)

lemma example_a_txt_node:
  "stat example_fs (Path (ascii ''data/a.txt'')) = Found (Regular (Text (ascii ''xy'')))"
  by (simp add: example_simps)

lemma Path_long_name: "Path long_name = PurePath [] [long_name]"
proof (rule Path_single)
  show "slash \<notin> set long_name" by (simp add: long_name_def slash_def)
  show "long_name \<noteq> []" by (simp add: long_name_def)
  show "long_name \<noteq> ascii ''.''"
  proof
    assume "long_name = ascii ''.''"
    then have "length long_name = length (ascii ''.'')" by simp
    then show False by (simp add: long_name_def)
  qed
qed

lemma example_long_name_lookup:
  "node_at example_fs (Path long_name)
     = Inaccessible OSError (ascii ''[Errno 36] File name too long: '' @ [39] @ long_name @ [39])"
  by (simp add: Path_long_name example_fs_def str_path_def)
    (simp add: long_name_def slash_def)

lemma example_long_name_exists:
  "exists_path example_fs (Path long_name)
     = Inl (Exception OSError
         (ascii ''[Errno 36] File name too long: '' @ [39] @ long_name @ [39]))"
  by (simp add: exists_path_def stat_def example_long_name_lookup)

lemma example_links:
  "list_files example_fs (Path (ascii ''links'')) =
     Inr [PurePath [] [ascii ''links'', ascii ''s.txt'']]"
  by (simp add: list_files_def exists_path_def iterdir_def is_file_def child_def name_def
      example_simps)

lemma example_link_node:
  "node_at example_fs (PurePath [] [ascii ''links'', ascii ''s.txt''])
     = Present (Symlink (PurePath [] [ascii ''data'', ascii ''a.txt'']))"
  by (simp add: example_simps)

lemma example_locked_dir:
  "stat example_fs (Path (ascii ''locked''))
     = Found (Directory (Unlistable PermissionError
         (ascii ''[Errno 13] Permission denied: '' @ [39] @ ascii ''locked'' @ [39])))"
  by (simp add: example_simps)

lemma example_locked_list_files:
  "list_files example_fs (Path (ascii ''locked''))
     = Inl (Exception PermissionError
         (ascii ''[Errno 13] Permission denied: '' @ [39] @ ascii ''locked'' @ [39]))"
  by (simp add: list_files_def exists_path_def iterdir_def example_locked_dir)

lemma example_locked_x_exists:
  "exists_path example_fs (Path (ascii ''locked/x''))
     = Inl (Exception PermissionError
         (ascii ''[Errno 13] Permission denied: '' @ [39] @ ascii ''locked/x'' @ [39]))"
  by (simp add: exists_path_def example_simps)

lemma example_locked_x_read:
  "read_text example_fs (Path (ascii ''locked/x''))
     = Inl (Exception PermissionError
         (ascii ''[Errno 13] Permission denied: '' @ [39] @ ascii ''locked/x'' @ [39]))"
  by (simp add: read_text_def example_simps)

lemma example_preview_b_txt:
  "preview_file example_fs (Path (ascii ''data/b.txt'')) 200 = Inr (ascii ''hello world'')"
  by (simp only: preview_file_ok [OF example_b_txt])
    (simp add: slice_to_def replace_def ascii_def newline_def space_def)

lemma example_preview_b_txt_7:
  "preview_file example_fs (Path (ascii ''data/b.txt'')) 7 = Inr (ascii ''hello w'')"
  by (simp only: preview_file_ok [OF example_b_txt])
    (simp add: slice_to_def replace_def ascii_def newline_def space_def)

lemma example_preview_c_bin:
  "preview_file example_fs (Path (ascii ''data/c.bin'')) n
     = Inr (ascii ''<error reading file: '' @ example_decode_message @ ascii ''>'')"
  by (simp only: preview_file_failed [OF example_c_bin] str_exc.simps)

lemma example_preview_d_txt:
  "preview_file example_fs (Path (ascii ''data/d.txt'')) 200 = Inr [97, 8232, 98]"
  by (simp only: preview_file_ok [OF example_d_txt])
    (simp add: slice_to_def replace_def newline_def)

lemma example_data_is_file:
  "\<forall>n\<in>set [ascii ''b.txt'', ascii ''a.txt'', ascii ''sub'', ascii ''c.bin'', ascii ''d.txt''].
     \<exists>b. is_file example_fs (child (Path (ascii ''data/'')) n) = Inr b"
  by (auto simp: is_file_def child_def example_simps)

lemma example_reordered_dir:
  "stat example_fs_reordered (Path (ascii ''data/''))
     = Found (Directory (Entries [ascii ''sub'', ascii ''d.txt'', ascii ''c.bin'',
         ascii ''b.txt'', ascii ''a.txt'']))"
  by (simp add: example_fs_reordered_def example_simps)

lemma example_reordered_is_file:
  "\<forall>n\<in>set [ascii ''b.txt'', ascii ''a.txt'', ascii ''sub'', ascii ''c.bin'', ascii ''d.txt''].
     is_file example_fs_reordered (child (Path (ascii ''data/'')) n)
       = is_file example_fs (child (Path (ascii ''data/'')) n)"
  by (simp add: example_fs_reordered_def is_file_def child_def example_simps)

subsection \<open>Preview extraction\<close>

text \<open>
  Claim C1, as stated, fails in its last part: a failure of reading does not always
  leave the run with exit status 0. The file \<^verbatim>\<open>locked/x\<close> lies below a directory that
  may not be searched. Reading it fails with \<^verbatim>\<open>PermissionError\<close> and \<^verbatim>\<open>preview_file\<close>
  returns the diagnostic text, but \<^verbatim>\<open>--file locked/x\<close> ends in \<^verbatim>\<open>p.exists()\<close> with that
  exception, nothing printed, exit status 1. And with the undecodable \<^verbatim>\<open>data/c.bin\<close>
  and an output path below a missing directory, the run ends in \<^verbatim>\<open>write_text\<close> with
  exit status 1.
\<close>

theorem run_exit_code_counterexample:
  "read_text example_fs (Path (ascii ''locked/x''))
     = Inl (Exception PermissionError
         (ascii ''[Errno 13] Permission denied: '' @ [39] @ ascii ''locked/x'' @ [39]))
   \<and> preview_file example_fs (Path (ascii ''locked/x'')) 200
     = Inr (ascii ''<error reading file: [Errno 13] Permission denied: '' @ [39]
            @ ascii ''locked/x'' @ [39] @ ascii ''>'')
   \<and> main (\<lambda>v. []) (\<lambda>s. None) example_fs (default_args\<lparr>file := Some (ascii ''locked/x'')\<rparr>)
     = \<lparr>stdout = [], files_after = example_fs,
        raised = Some (Exception PermissionError
          (ascii ''[Errno 13] Permission denied: '' @ [39] @ ascii ''locked/x'' @ [39]))\<rparr>
   \<and> exit_code (main (\<lambda>v. []) (\<lambda>s. None) example_fs
        (default_args\<lparr>file := Some (ascii ''locked/x'')\<rparr>)) = 1
   \<and> read_text example_fs (Path (ascii ''data/c.bin''))
     = Inl (Exception UnicodeDecodeError example_decode_message)
   \<and> exit_code (main (\<lambda>v. []) (\<lambda>s. None) example_fs
        (default_args\<lparr>file := Some (ascii ''data/c.bin''),
           output := Some (ascii ''nonexistent/out.json'')\<rparr>)) = 1"
proof -
  let ?a = "default_args\<lparr>file := Some (ascii ''locked/x'')\<rparr>"
  let ?b = "default_args\<lparr>file := Some (ascii ''data/c.bin''),
           output := Some (ascii ''nonexistent/out.json'')\<rparr>"
  let ?e = "Exception PermissionError
          (ascii ''[Errno 13] Permission denied: '' @ [39] @ ascii ''locked/x'' @ [39])"
  have 1: "preview_file example_fs (Path (ascii ''locked/x'')) 200
     = Inr (ascii ''<error reading file: [Errno 13] Permission denied: '' @ [39]
            @ ascii ''locked/x'' @ [39] @ ascii ''>'')"
    by (simp only: preview_file_failed [OF example_locked_x_read] str_exc.simps)
      (simp add: ascii_def)
  have "given (file ?a) = Some (ascii ''locked/x'')" by (simp add: default_args_def)
  then have 2: "main (\<lambda>v. []) (\<lambda>s. None) example_fs ?a
     = \<lparr>stdout = [], files_after = example_fs, raised = Some ?e\<rparr>"
    using example_locked_x_exists by (rule main_exists_raises)
  then have 3: "exit_code (main (\<lambda>v. []) (\<lambda>s. None) example_fs ?a) = 1" by simp
  have g: "given (file ?b) = Some (ascii ''data/c.bin'')"
    "given (output ?b) = Some (ascii ''nonexistent/out.json'')"
    by (simp_all add: default_args_def)
  obtain r where r: "process_file example_fs (Path (ascii ''data/c.bin'')) = Inr r"
    using process_file_total by blast
  have w: "write_text example_fs (Path (ascii ''nonexistent/out.json'')) s
     = Inl (Exception FileNotFoundError
         (ascii ''[Errno 2] No such file or directory: '' @ [39]
           @ ascii ''nonexistent/out.json'' @ [39]))" for s
    by (simp add: write_text_def parent_def target_numeral Let_def example_simps)
  have 4: "exit_code (main (\<lambda>v. []) (\<lambda>s. None) example_fs ?b) = 1"
    using g r example_c_bin_exists w
    by (simp add: main_def print_line_def)
  from 1 2 3 4 example_locked_x_read example_c_bin show ?thesis by simp
qed

text \<open>
  Claim C1, amended. \<^verbatim>\<open>preview_file\<close> never raises, for any path and any bound. When
  reading or decoding fails with an exception \<open>e\<close>, it returns the text
  \<^verbatim>\<open><error reading file: \<close>\<open>str(e)\<close>\<^verbatim>\<open>>\<close>, which contains \<^verbatim>\<open>error reading file\<close>.
  The run around it ends with exit status 0 provided that it reaches
  \<^verbatim>\<open>preview_file\<close> and can emit its output: in single-file mode when \<^verbatim>\<open>exists()\<close>
  answers \<^verbatim>\<open>True\<close>, in directory mode when \<^verbatim>\<open>list_files\<close> returns, and in both when
  standard output takes every line and the output file, if one is named, can be
  written.
\<close>

theorem preview_file_never_raises:
  "(\<exists>s. preview_file fs p n = Inr s)
   \<and> (\<forall>e. read_text fs p = Inl e \<longrightarrow>
          preview_file fs p n = Inr (ascii ''<error reading file: '' @ str_exc e @ ascii ''>'')
          \<and> sublist (ascii ''error reading file'')
               (ascii ''<error reading file: '' @ str_exc e @ ascii ''>''))
   \<and> (\<forall>f e. given (file a) = Some f \<and> exists_path fs (Path f) = Inr True
          \<and> read_text fs (Path f) = Inl e \<and> (\<forall>s. enc s = None) \<longrightarrow>
        (given (output a) = None \<longrightarrow>
           main dumps enc fs a =
             \<lparr>stdout =
                [ascii ''[intelligence] processing single file: '' @ str_path (Path f),
                 dumps (Dict [(ascii ''files'', List [Dict
                   [(ascii ''file'', Str (str_path (Path f))),
                    (ascii ''preview'',
                       Str (ascii ''<error reading file: '' @ str_exc e @ ascii ''>'')),
                    (ascii ''entities'', List []),
                    (ascii ''relations'', List []),
                    (ascii ''provenance'',
                       Dict [(ascii ''source'', Str (str_path (Path f)))])]])])],
              files_after = fs, raised = None\<rparr>)
        \<and> ((\<forall>out. given (output a) = Some out \<longrightarrow> \<not> isl (write_text fs (Path out) []))
           \<longrightarrow> exit_code (main dumps enc fs a) = 0))
   \<and> (\<forall>files. given (file b) = None \<and> list_files fs (Path (data_dir b)) = Inr files
          \<and> (\<forall>s. enc s = None)
          \<and> (\<forall>out. given (output b) = Some out \<longrightarrow> \<not> isl (write_text fs (Path out) []))
        \<longrightarrow> exit_code (main dumps enc fs b) = 0)"
proof (intro conjI allI impI)
  show "\<exists>s. preview_file fs p n = Inr s" by (rule preview_file_total)
next
  fix e assume "read_text fs p = Inl e"
  then show "preview_file fs p n = Inr (ascii ''<error reading file: '' @ str_exc e @ ascii ''>'')"
    by (rule preview_file_failed)
next
  fix e
  have "ascii ''<error reading file: '' @ str_exc e @ ascii ''>''
      = ascii ''<'' @ ascii ''error reading file'' @ (ascii '': '' @ str_exc e @ ascii ''>'')"
    by (simp add: ascii_def)
  then show "sublist (ascii ''error reading file'')
      (ascii ''<error reading file: '' @ str_exc e @ ascii ''>'')"
    unfolding sublist_def by blast
next
  fix f e
  assume h: "given (file a) = Some f \<and> exists_path fs (Path f) = Inr True
      \<and> read_text fs (Path f) = Inl e \<and> (\<forall>s. enc s = None)"
    and o: "given (output a) = None"
  from h have "preview_file fs (Path f) default_length
      = Inr (ascii ''<error reading file: '' @ str_exc e @ ascii ''>'')"
    by (simp add: preview_file_failed)
  then have "process_file fs (Path f) = Inr (Dict
      [(ascii ''file'', Str (str_path (Path f))),
       (ascii ''preview'', Str (ascii ''<error reading file: '' @ str_exc e @ ascii ''>'')),
       (ascii ''entities'', List []),
       (ascii ''relations'', List []),
       (ascii ''provenance'', Dict [(ascii ''source'', Str (str_path (Path f)))])])"
    by (rule process_file_record)
  with h o show "main dumps enc fs a =
             \<lparr>stdout =
                [ascii ''[intelligence] processing single file: '' @ str_path (Path f),
                 dumps (Dict [(ascii ''files'', List [Dict
                   [(ascii ''file'', Str (str_path (Path f))),
                    (ascii ''preview'',
                       Str (ascii ''<error reading file: '' @ str_exc e @ ascii ''>'')),
                    (ascii ''entities'', List []),
                    (ascii ''relations'', List []),
                    (ascii ''provenance'',
                       Dict [(ascii ''source'', Str (str_path (Path f)))])]])])],
              files_after = fs, raised = None\<rparr>"
    by (intro main_file_mode) simp_all
next
  fix f e
  assume h: "given (file a) = Some f \<and> exists_path fs (Path f) = Inr True
      \<and> read_text fs (Path f) = Inl e \<and> (\<forall>s. enc s = None)"
    and o: "\<forall>out. given (output a) = Some out \<longrightarrow> \<not> isl (write_text fs (Path out) [])"
  then have "raised (main dumps enc fs a) = None"
    by (intro main_completes) blast+
  then show "exit_code (main dumps enc fs a) = 0" by simp
next
  fix files
  assume h: "given (file b) = None \<and> list_files fs (Path (data_dir b)) = Inr files
    \<and> (\<forall>s. enc s = None)
    \<and> (\<forall>out. given (output b) = Some out \<longrightarrow> \<not> isl (write_text fs (Path out) []))"
  then have "raised (main dumps enc fs b) = None"
    by (intro main_completes) blast+
  then show "exit_code (main dumps enc fs b) = 0" by simp
qed

theorem preview_file_never_raises_witness:
  "read_text example_fs (Path (ascii ''data/c.bin''))
     = Inl (Exception UnicodeDecodeError example_decode_message)
   \<and> preview_file example_fs (Path (ascii ''data/c.bin'')) 200
     = Inr (ascii ''<error reading file: '' @ example_decode_message @ ascii ''>'')
   \<and> given (file (default_args\<lparr>file := Some (ascii ''data/c.bin'')\<rparr>)) = Some (ascii ''data/c.bin'')
   \<and> exists_path example_fs (Path (ascii ''data/c.bin'')) = Inr True
   \<and> given (output default_args) = None
   \<and> stdout (main (\<lambda>v. []) (\<lambda>s. None) example_fs
        (default_args\<lparr>file := Some (ascii ''data/c.bin'')\<rparr>))
       = [ascii ''[intelligence] processing single file: data/c.bin'', []]
   \<and> exit_code (main (\<lambda>v. []) (\<lambda>s. None) example_fs
        (default_args\<lparr>file := Some (ascii ''data/c.bin'')\<rparr>)) = 0
   \<and> given (file default_args) = None
   \<and> list_files example_fs (Path (data_dir default_args)) =
       Inr [PurePath [] [ascii ''data'', ascii ''a.txt''],
            PurePath [] [ascii ''data'', ascii ''b.txt''],
            PurePath [] [ascii ''data'', ascii ''c.bin''],
            PurePath [] [ascii ''data'', ascii ''d.txt'']]
   \<and> exit_code (main (\<lambda>v. []) (\<lambda>s. None) example_fs default_args) = 0"
proof -
  let ?p = "Path (ascii ''data/c.bin'')"
  let ?a = "default_args\<lparr>file := Some (ascii ''data/c.bin'')\<rparr>"
  let ?e = "Exception UnicodeDecodeError example_decode_message"
  note inst = preview_file_never_raises
    [of example_fs ?p 200 ?a "\<lambda>s. None" "\<lambda>v. []" default_args]
  have g: "given (file ?a) = Some (ascii ''data/c.bin'')" "given (output ?a) = None"
    "given (file default_args) = None" "given (output default_args) = None"
    "data_dir default_args = ascii ''data/''"
    by (simp_all add: default_args_def)
  have s: "str_path ?p = ascii ''data/c.bin''"
    by (simp add: str_path_def Path_def ascii_def slash_def)
  have 1: "preview_file example_fs ?p 200
     = Inr (ascii ''<error reading file: '' @ example_decode_message @ ascii ''>'')"
    using inst [THEN conjunct2, THEN conjunct1, rule_format, OF example_c_bin] by simp
  have "stdout (main (\<lambda>v. []) (\<lambda>s. None) example_fs ?a)
      = [ascii ''[intelligence] processing single file: '' @ str_path ?p, []]"
    by (subst inst [THEN conjunct2, THEN conjunct2, THEN conjunct1, rule_format,
          of "ascii ''data/c.bin''" ?e, THEN conjunct1, rule_format])
      (simp_all only: g example_c_bin example_c_bin_exists simp_thms run.simps)
  then have 2: "stdout (main (\<lambda>v. []) (\<lambda>s. None) example_fs ?a)
      = [ascii ''[intelligence] processing single file: data/c.bin'', []]"
    by (simp only: s) (simp add: ascii_def)
  have 3: "exit_code (main (\<lambda>v. []) (\<lambda>s. None) example_fs ?a) = 0"
    by (rule inst [THEN conjunct2, THEN conjunct2, THEN conjunct1, rule_format,
          of "ascii ''data/c.bin''" ?e, THEN conjunct2, rule_format])
      (simp_all only: g example_c_bin example_c_bin_exists simp_thms option.distinct)
  have 4: "exit_code (main (\<lambda>v. []) (\<lambda>s. None) example_fs default_args) = 0"
    by (rule inst [THEN conjunct2, THEN conjunct2, THEN conjunct2, rule_format])
      (simp add: g example_list_files)
  from 1 2 3 4 g example_c_bin example_c_bin_exists example_list_files show ?thesis
    by (simp only: simp_thms)
qed

text \<open>
  Claim C2, as stated, fails: the diagnostic text of a failed read is not cut to the
  bound. For the missing file \<^verbatim>\<open>missing.txt\<close> and the bound 10 the result has 72
  characters, and for a missing file with a name of 180 characters it exceeds the
  default bound 200.
\<close>

theorem preview_file_bound_counterexample:
  "preview_file example_fs (Path (ascii ''missing.txt'')) 10
     = Inr (ascii ''<error reading file: [Errno 2] No such file or directory: '' @ [39]
            @ ascii ''missing.txt'' @ [39] @ ascii ''>'')
   \<and> \<not> int (length (ascii ''<error reading file: [Errno 2] No such file or directory: '' @ [39]
            @ ascii ''missing.txt'' @ [39] @ ascii ''>'')) \<le> 10
   \<and> preview_file example_fs (Path (ascii ''aaaaaaaaaaaaaaaaaaaaaaaaaaaaaaaaaaaaaaaaaaaaaaaaaaaaaaaaaaaaaaaaaaaaaaaaaaaaaaaaaaaaaaaaaaaaaaaaaaaaaaaaaaaaaaaaaaaaaaaaaaaaaaaaaaaaaaaaaaaaaaaaaaaaaaaaaaaaaaaaaaaaaaaaaaaaaaaaaaaa'')) default_length
     = Inr (ascii ''<error reading file: [Errno 2] No such file or directory: '' @ [39]
            @ ascii ''aaaaaaaaaaaaaaaaaaaaaaaaaaaaaaaaaaaaaaaaaaaaaaaaaaaaaaaaaaaaaaaaaaaaaaaaaaaaaaaaaaaaaaaaaaaaaaaaaaaaaaaaaaaaaaaaaaaaaaaaaaaaaaaaaaaaaaaaaaaaaaaaaaaaaaaaaaaaaaaaaaaaaaaaaaaaaaaaaaaa'' @ [39] @ ascii ''>'')
   \<and> \<not> int (length (ascii ''<error reading file: [Errno 2] No such file or directory: '' @ [39]
            @ ascii ''aaaaaaaaaaaaaaaaaaaaaaaaaaaaaaaaaaaaaaaaaaaaaaaaaaaaaaaaaaaaaaaaaaaaaaaaaaaaaaaaaaaaaaaaaaaaaaaaaaaaaaaaaaaaaaaaaaaaaaaaaaaaaaaaaaaaaaaaaaaaaaaaaaaaaaaaaaaaaaaaaaaaaaaaaaaaaaaaaaaa'' @ [39] @ ascii ''>'')) \<le> default_length"
  by (simp only: preview_file_failed [OF example_missing]
        preview_file_failed [OF example_long_missing] str_exc.simps)
    (simp add: ascii_def default_length_def)

text \<open>
  Claim C2, amended. When the file is read and decoded and the bound \<open>n\<close> is not
  negative, the preview has \<open>min n L\<close> characters, \<open>L\<close> the length of the text, hence at
  most \<open>n\<close>. When reading fails with \<open>e\<close>, the diagnostic text is returned whole: it
  has \<open>22 + len(str(e))\<close> characters, whatever the bound.
\<close>

theorem preview_file_bound_when_read:
  "(\<forall>t. read_text fs p = Inr t \<and> 0 \<le> n \<longrightarrow>
      (\<exists>s. preview_file fs p n = Inr s \<and> length s = min (nat n) (length t)
           \<and> int (length s) \<le> n))
   \<and> (\<forall>e. read_text fs p = Inl e \<longrightarrow>
      (\<exists>s. preview_file fs p n = Inr s \<and> length s = 22 + length (str_exc e)))"
proof (intro conjI allI impI)
  fix t assume h: "read_text fs p = Inr t \<and> 0 \<le> n"
  then have "preview_file fs p n = Inr (replace newline space (slice_to t n))"
    and "length (replace newline space (slice_to t n)) = min (nat n) (length t)"
    by (simp_all add: preview_file_ok length_replace length_slice_to)
  moreover from h have "int (min (nat n) (length t)) \<le> n" by linarith
  ultimately show "\<exists>s. preview_file fs p n = Inr s \<and> length s = min (nat n) (length t)
      \<and> int (length s) \<le> n"
    by simp
next
  fix e assume "read_text fs p = Inl e"
  then show "\<exists>s. preview_file fs p n = Inr s \<and> length s = 22 + length (str_exc e)"
    by (simp add: preview_file_failed)
qed

theorem preview_file_bound_when_read_witness:
  "read_text example_fs (Path (ascii ''data/b.txt''))
     = Inr (ascii ''hello'' @ [newline] @ ascii ''world'')
   \<and> (0::int) \<le> 7
   \<and> preview_file example_fs (Path (ascii ''data/b.txt'')) 7 = Inr (ascii ''hello w'')
   \<and> int (length (ascii ''hello w'')) \<le> 7
   \<and> read_text example_fs (Path (ascii ''data/c.bin''))
        = Inl (Exception UnicodeDecodeError example_decode_message)
   \<and> preview_file example_fs (Path (ascii ''data/c.bin'')) 7
        = Inr (ascii ''<error reading file: '' @ example_decode_message @ ascii ''>'')
   \<and> length (ascii ''<error reading file: '' @ example_decode_message @ ascii ''>'')
        = 22 + length example_decode_message"
proof -
  have "\<exists>s. preview_file example_fs (Path (ascii ''data/b.txt'')) 7 = Inr s
      \<and> length s = min (nat 7) (length (ascii ''hello'' @ [newline] @ ascii ''world''))
      \<and> int (length s) \<le> 7"
    by (rule preview_file_bound_when_read [THEN conjunct1, rule_format])
      (simp add: example_b_txt)
  then have 1: "int (length (ascii ''hello w'')) \<le> 7"
    by (simp add: example_preview_b_txt_7)
  have "\<exists>s. preview_file example_fs (Path (ascii ''data/c.bin'')) 7 = Inr s
      \<and> length s = 22 + length (str_exc (Exception UnicodeDecodeError example_decode_message))"
    by (rule preview_file_bound_when_read [THEN conjunct2, rule_format]) (rule example_c_bin)
  then have 2: "length (ascii ''<error reading file: '' @ example_decode_message @ ascii ''>'')
      = 22 + length example_decode_message"
    by (simp add: example_preview_c_bin)
  from 1 2 example_b_txt example_c_bin example_preview_b_txt_7 example_preview_c_bin
  show ?thesis by simp
qed

text \<open>
  Claim C5. For a file decoded to a text of length \<open>L\<close> and a bound \<open>n\<close> (a character
  count, so not negative): if \<open>L \<ge> n\<close>, the preview has exactly \<open>n\<close> characters, none
  of them a newline, and is the first \<open>n\<close> characters of the text with each newline
  replaced by a space; if \<open>L < n\<close>, the preview is the whole text with each newline
  replaced by a space.
\<close>

theorem preview_file_length_cases:
  assumes "read_text fs p = Inr t" and "0 \<le> n"
  shows "(n \<le> int (length t) \<longrightarrow>
           (\<exists>s. preview_file fs p n = Inr s \<and> int (length s) = n \<and> newline \<notin> set s
                \<and> s = replace newline space (take (nat n) t)))
       \<and> (int (length t) < n \<longrightarrow> preview_file fs p n = Inr (replace newline space t))"
proof (intro conjI impI)
  assume "n \<le> int (length t)"
  with assms show "\<exists>s. preview_file fs p n = Inr s \<and> int (length s) = n \<and> newline \<notin> set s
      \<and> s = replace newline space (take (nat n) t)"
    by (simp add: preview_file_ok length_replace slice_to_def replace_absent newline_neq_space)
next
  assume "int (length t) < n"
  with assms show "preview_file fs p n = Inr (replace newline space t)"
    by (simp add: preview_file_ok slice_to_def)
qed

theorem preview_file_length_cases_witness:
  "read_text example_fs (Path (ascii ''data/b.txt''))
     = Inr (ascii ''hello'' @ [newline] @ ascii ''world'')
   \<and> (0::int) \<le> 7 \<and> 7 \<le> int (length (ascii ''hello'' @ [newline] @ ascii ''world''))
   \<and> preview_file example_fs (Path (ascii ''data/b.txt'')) 7 = Inr (ascii ''hello w'')
   \<and> int (length (ascii ''hello w'')) = 7 \<and> newline \<notin> set (ascii ''hello w'')
   \<and> (0::int) \<le> 200 \<and> int (length (ascii ''hello'' @ [newline] @ ascii ''world'')) < 200
   \<and> preview_file example_fs (Path (ascii ''data/b.txt'')) 200 = Inr (ascii ''hello world'')"
proof -
  have "\<exists>s. preview_file example_fs (Path (ascii ''data/b.txt'')) 7 = Inr s
      \<and> int (length s) = 7 \<and> newline \<notin> set s
      \<and> s = replace newline space (take (nat 7) (ascii ''hello'' @ [newline] @ ascii ''world''))"
    by (rule preview_file_length_cases [OF example_b_txt, THEN conjunct1, rule_format]) simp_all
  then obtain s where "preview_file example_fs (Path (ascii ''data/b.txt'')) 7 = Inr s"
    and "int (length s) = 7" and "newline \<notin> set s"
    by blast
  then have 1: "int (length (ascii ''hello w'')) = 7 \<and> newline \<notin> set (ascii ''hello w'')"
    by (simp add: example_preview_b_txt_7)
  have 2: "preview_file example_fs (Path (ascii ''data/b.txt'')) 200
      = Inr (replace newline space (ascii ''hello'' @ [newline] @ ascii ''world''))"
    by (rule preview_file_length_cases [OF example_b_txt, THEN conjunct2, rule_format]) simp_all
  from 1 2 example_b_txt example_preview_b_txt_7 example_preview_b_txt show ?thesis by simp
qed

text \<open>
  Claim C6, as stated, fails: only \<^verbatim>\<open>"\n"\<close> is replaced. The file \<^verbatim>\<open>data/d.txt\<close>
  holds a LINE SEPARATOR (U+2028, code point 8232) between \<^verbatim>\<open>a\<close> and \<^verbatim>\<open>b\<close>, and
  its preview still holds it.
\<close>

theorem preview_file_line_break_counterexample:
  "read_text example_fs (Path (ascii ''data/d.txt'')) = Inr [97, 8232, 98]
   \<and> preview_file example_fs (Path (ascii ''data/d.txt'')) 200 = Inr [97, 8232, 98]
   \<and> 8232 \<in> set [97, 8232, 98::nat] \<and> line_break 8232"
  by (simp add: example_d_txt example_preview_d_txt line_break_def)

text \<open>
  Claim C6, amended. For a file that is read and decoded, the preview is the selected
  prefix of the text with every newline character \<^verbatim>\<open>"\n"\<close> replaced by one space and
  every other character unchanged; it contains no \<^verbatim>\<open>"\n"\<close>.
\<close>

theorem preview_file_no_newline:
  assumes "read_text fs p = Inr t"
  shows "\<exists>s. preview_file fs p n = Inr s
           \<and> length s = length (slice_to t n)
           \<and> (\<forall>i<length s. s ! i = (if slice_to t n ! i = newline then space else slice_to t n ! i))
           \<and> newline \<notin> set s"
  using assms
  by (simp add: preview_file_ok length_replace replace_absent newline_neq_space)
    (simp add: replace_def)

theorem preview_file_no_newline_witness:
  "read_text example_fs (Path (ascii ''data/b.txt''))
     = Inr (ascii ''hello'' @ [newline] @ ascii ''world'')
   \<and> preview_file example_fs (Path (ascii ''data/b.txt'')) 200 = Inr (ascii ''hello world'')
   \<and> newline \<notin> set (ascii ''hello world'')"
proof -
  from preview_file_no_newline [OF example_b_txt, of 200]
  have "newline \<notin> set (ascii ''hello world'')"
    by (simp add: example_preview_b_txt)
  with example_b_txt example_preview_b_txt show ?thesis by simp
qed

subsection \<open>Records and aggregation\<close>

text \<open>
  Claim C7. For every path, \<^verbatim>\<open>process_file\<close> returns a dictionary with exactly the
  keys \<^verbatim>\<open>file\<close>, \<^verbatim>\<open>preview\<close>, \<^verbatim>\<open>entities\<close>, \<^verbatim>\<open>relations\<close> and \<^verbatim>\<open>provenance\<close>, in
  this order: \<^verbatim>\<open>file\<close> is the path string, \<^verbatim>\<open>preview\<close> the result of
  \<^verbatim>\<open>preview_file\<close> at the default bound, \<^verbatim>\<open>entities\<close> and \<^verbatim>\<open>relations\<close> are empty
  lists, and \<^verbatim>\<open>provenance\<close> is the dictionary with the one entry \<^verbatim>\<open>source\<close>, the
  same path string.
\<close>

theorem process_file_record_shape:
  "\<exists>preview. preview_file fs p default_length = Inr preview
     \<and> process_file fs p = Inr (Dict
          [(ascii ''file'', Str (str_path p)),
           (ascii ''preview'', Str preview),
           (ascii ''entities'', List []),
           (ascii ''relations'', List []),
           (ascii ''provenance'', Dict [(ascii ''source'', Str (str_path p))])])"
proof -
  obtain pv where "preview_file fs p default_length = Inr pv"
    using preview_file_total by blast
  then show ?thesis by (auto simp: process_file_record)
qed

theorem process_file_record_shape_witness:
  "process_file example_fs (Path (ascii ''data/b.txt'')) = Inr (Dict
          [(ascii ''file'', Str (ascii ''data/b.txt'')),
           (ascii ''preview'', Str (ascii ''hello world'')),
           (ascii ''entities'', List []),
           (ascii ''relations'', List []),
           (ascii ''provenance'', Dict [(ascii ''source'', Str (ascii ''data/b.txt''))])])"
proof -
  have "str_path (Path (ascii ''data/b.txt'')) = ascii ''data/b.txt''"
    by (simp add: str_path_def Path_def ascii_def slash_def)
  with process_file_record_shape [of example_fs "Path (ascii ''data/b.txt'')"]
  show ?thesis by (simp add: default_length_def example_preview_b_txt)
qed

text \<open>
  Claim C8. For every list of paths, \<^verbatim>\<open>process_files\<close> returns the dictionary whose
  \<^verbatim>\<open>files\<close> entry is \<^verbatim>\<open>process_file\<close> mapped over the paths: one record for each
  path, in order, duplicates kept. It never raises; a path whose read fails gets the
  diagnostic text in the \<^verbatim>\<open>preview\<close> field of its own record, and every other field
  and record is as for a readable file.
\<close>

theorem process_files_maps_process_file:
  "\<exists>rs. process_files fs paths = Inr (Dict [(ascii ''files'', List rs)])
     \<and> map (process_file fs) paths = map Inr rs
     \<and> length rs = length paths
     \<and> rs = map (\<lambda>p. Dict
         [(ascii ''file'', Str (str_path p)),
          (ascii ''preview'', Str (case read_text fs p of
              Inr t \<Rightarrow> replace newline space (slice_to t default_length)
            | Inl e \<Rightarrow> ascii ''<error reading file: '' @ str_exc e @ ascii ''>'')),
          (ascii ''entities'', List []),
          (ascii ''relations'', List []),
          (ascii ''provenance'', Dict [(ascii ''source'', Str (str_path p))])]) paths"
proof -
  let ?entry = "\<lambda>p. Dict
         [(ascii ''file'', Str (str_path p)),
          (ascii ''preview'', Str (case read_text fs p of
              Inr t \<Rightarrow> replace newline space (slice_to t default_length)
            | Inl e \<Rightarrow> ascii ''<error reading file: '' @ str_exc e @ ascii ''>'')),
          (ascii ''entities'', List []),
          (ascii ''relations'', List []),
          (ascii ''provenance'', Dict [(ascii ''source'', Str (str_path p))])]"
  have m: "map (process_file fs) paths = map Inr (map ?entry paths)"
    by (simp add: process_file_eq)
  then have "process_files fs paths = Inr (Dict [(ascii ''files'', List (map ?entry paths))])"
    by (rule process_files_map)
  with m show ?thesis by simp
qed

theorem process_files_maps_process_file_witness:
  "process_files example_fs
     [Path (ascii ''data/c.bin''), Path (ascii ''data/b.txt''), Path (ascii ''data/c.bin'')]
   = Inr (Dict [(ascii ''files'', List
      [Dict [(ascii ''file'', Str (ascii ''data/c.bin'')),
             (ascii ''preview'',
                Str (ascii ''<error reading file: '' @ example_decode_message @ ascii ''>'')),
             (ascii ''entities'', List []),
             (ascii ''relations'', List []),
             (ascii ''provenance'', Dict [(ascii ''source'', Str (ascii ''data/c.bin''))])],
       Dict [(ascii ''file'', Str (ascii ''data/b.txt'')),
             (ascii ''preview'', Str (ascii ''hello world'')),
             (ascii ''entities'', List []),
             (ascii ''relations'', List []),
             (ascii ''provenance'', Dict [(ascii ''source'', Str (ascii ''data/b.txt''))])],
       Dict [(ascii ''file'', Str (ascii ''data/c.bin'')),
             (ascii ''preview'',
                Str (ascii ''<error reading file: '' @ example_decode_message @ ascii ''>'')),
             (ascii ''entities'', List []),
             (ascii ''relations'', List []),
             (ascii ''provenance'', Dict [(ascii ''source'', Str (ascii ''data/c.bin''))])]])])"
proof -
  have b: "str_path (Path (ascii ''data/b.txt'')) = ascii ''data/b.txt''"
    and c: "str_path (Path (ascii ''data/c.bin'')) = ascii ''data/c.bin''"
    by (simp_all add: str_path_def Path_def ascii_def slash_def)
  have pb: "(case read_text example_fs (Path (ascii ''data/b.txt'')) of
        Inr t \<Rightarrow> replace newline space (slice_to t default_length)
      | Inl e \<Rightarrow> ascii ''<error reading file: '' @ str_exc e @ ascii ''>'') = ascii ''hello world''"
    by (simp only: example_b_txt sum.case)
      (simp add: slice_to_def default_length_def replace_def ascii_def newline_def space_def)
  from process_files_maps_process_file [of example_fs
      "[Path (ascii ''data/c.bin''), Path (ascii ''data/b.txt''), Path (ascii ''data/c.bin'')]"]
  show ?thesis
    by (auto simp add: b c pb example_c_bin)
qed

subsection \<open>Discovery\<close>

text \<open>
  Claim C3, as stated, fails. \<^verbatim>\<open>links/s.txt\<close> is a symbolic link, so not a regular
  entry of \<^verbatim>\<open>links/\<close>, and \<^verbatim>\<open>list_files\<close> returns it, because it leads to a regular
  file. And \<^verbatim>\<open>locked/\<close> is a directory for which \<^verbatim>\<open>list_files\<close> returns nothing: it
  raises the \<^verbatim>\<open>PermissionError\<close> of \<^verbatim>\<open>os.listdir\<close>.
\<close>

theorem list_files_directory_counterexample:
  "list_files example_fs (Path (ascii ''links''))
     = Inr [PurePath [] [ascii ''links'', ascii ''s.txt'']]
   \<and> node_at example_fs (PurePath [] [ascii ''links'', ascii ''s.txt''])
     = Present (Symlink (PurePath [] [ascii ''data'', ascii ''a.txt'']))
   \<and> stat example_fs (Path (ascii ''locked''))
     = Found (Directory (Unlistable PermissionError
         (ascii ''[Errno 13] Permission denied: '' @ [39] @ ascii ''locked'' @ [39])))
   \<and> list_files example_fs (Path (ascii ''locked''))
     = Inl (Exception PermissionError
         (ascii ''[Errno 13] Permission denied: '' @ [39] @ ascii ''locked'' @ [39]))"
  by (simp only: example_links example_link_node example_locked_dir example_locked_list_files
      simp_thms)

text \<open>
  Claim C3, amended. For a path that is a directory which can be enumerated and whose
  entries can all be examined (\<^verbatim>\<open>is_file\<close> raises for none), \<^verbatim>\<open>list_files\<close> returns
  exactly the entries that are regular files after symbolic links are followed: an
  entry is returned if and only if \<^verbatim>\<open>stat\<close> finds a regular file for it, each once for
  each time the directory lists it. The result is sorted by name in code point order,
  entries of equal name keep their order (the sort is stable), and the result is the
  same for every file system that enumerates the same entries in any order and
  answers \<^verbatim>\<open>is_file\<close> alike, so a second call on unchanged contents returns the
  same list.
\<close>

theorem list_files_directory:
  assumes "stat fs p = Found (Directory (Entries names))"
    and "\<forall>n\<in>set names. \<exists>b. is_file fs (child p n) = Inr b"
  shows "\<exists>files. list_files fs p = Inr files
     \<and> files = map (child p) (sort (filter (\<lambda>n. is_file fs (child p n) = Inr True) names))
     \<and> (\<forall>n\<in>set names. child p n \<in> set files
            \<longleftrightarrow> (\<exists>c. stat fs (child p n) = Found (Regular c)))
     \<and> mset files = mset (filter (\<lambda>q. is_file fs q = Inr True) (map (child p) names))
     \<and> sorted (map name files)
     \<and> (\<forall>k. filter (\<lambda>q. name q = k) files
            = filter (\<lambda>q. name q = k)
                (filter (\<lambda>q. is_file fs q = Inr True) (map (child p) names)))
     \<and> (\<forall>fs' names'. stat fs' p = Found (Directory (Entries names'))
            \<and> mset names' = mset names
            \<and> (\<forall>n\<in>set names. is_file fs' (child p n) = is_file fs (child p n)) \<longrightarrow>
           list_files fs' p = Inr files)"
proof -
  let ?reg = "\<lambda>q. is_file fs q = Inr True"
  let ?entries = "filter ?reg (map (child p) names)"
  let ?files = "sort_key name ?entries"
  have 1: "list_files fs p = Inr ?files"
    using assms by (rule list_files_of_directory_node)
  have "?entries = map (child p) (filter (\<lambda>n. is_file fs (child p n) = Inr True) names)"
    by (simp add: filter_map comp_def)
  then have 2: "?files
      = map (child p) (sort (filter (\<lambda>n. is_file fs (child p n) = Inr True) names))"
    by (simp add: sort_key_name_child)
  have 3: "child p n \<in> set ?files \<longleftrightarrow> (\<exists>c. stat fs (child p n) = Found (Regular c))"
    if "n \<in> set names" for n
    using that by (auto simp: is_file_True_iff)
  have 4: "mset ?files = mset ?entries" by simp
  have 5: "sorted (map name ?files)" by simp
  have 6: "filter (\<lambda>q. name q = k) ?files = filter (\<lambda>q. name q = k) ?entries" for k
    by (rule sort_key_stable)
  have 7: "list_files fs' p = Inr ?files"
    if dir: "stat fs' p = Found (Directory (Entries names'))"
      and perm: "mset names' = mset names"
      and same: "\<forall>n\<in>set names. is_file fs' (child p n) = is_file fs (child p n)"
    for fs' names'
  proof -
    have s: "set names' = set names" using perm by (rule mset_eq_setD)
    let ?entries' = "filter (\<lambda>q. is_file fs' q = Inr True) (map (child p) names')"
    have "\<forall>n\<in>set names'. \<exists>b. is_file fs' (child p n) = Inr b"
      using assms(2) same s by simp
    with dir have "list_files fs' p = Inr (sort_key name ?entries')"
      by (rule list_files_of_directory_node)
    moreover have e: "?entries' = filter ?reg (map (child p) names')"
      by (rule filter_cong) (use same s in auto)
    moreover have "mset (filter ?reg (map (child p) names')) = mset ?entries"
      using perm by (simp add: mset_filter)
    moreover have "inj_on name (set (filter ?reg (map (child p) names')))"
      by (auto simp: inj_on_def)
    ultimately show ?thesis
      using sort_key_unique [of "filter ?reg (map (child p) names')" ?entries name]
      by simp
  qed
  show ?thesis
  proof (intro exI [of _ ?files] conjI allI impI ballI)
    show "list_files fs p = Inr ?files" by (rule 1)
    show "?files = map (child p) (sort (filter (\<lambda>n. is_file fs (child p n) = Inr True) names))"
      by (rule 2)
    show "child p n \<in> set ?files \<longleftrightarrow> (\<exists>c. stat fs (child p n) = Found (Regular c))"
      if "n \<in> set names" for n using that by (rule 3)
    show "mset ?files = mset ?entries" by (rule 4)
    show "sorted (map name ?files)" by (rule 5)
    show "filter (\<lambda>q. name q = k) ?files = filter (\<lambda>q. name q = k) ?entries" for k
      by (rule 6)
    show "list_files fs' p = Inr ?files"
      if "stat fs' p = Found (Directory (Entries names')) \<and> mset names' = mset names
          \<and> (\<forall>n\<in>set names. is_file fs' (child p n) = is_file fs (child p n))"
      for fs' names'
      using that by (intro 7) blast+
  qed
qed

theorem list_files_directory_witness:
  "stat example_fs (Path (ascii ''data/''))
     = Found (Directory (Entries [ascii ''b.txt'', ascii ''a.txt'', ascii ''sub'',
         ascii ''c.bin'', ascii ''d.txt'']))
   \<and> list_files example_fs (Path (ascii ''data/''))
     = Inr [PurePath [] [ascii ''data'', ascii ''a.txt''],
            PurePath [] [ascii ''data'', ascii ''b.txt''],
            PurePath [] [ascii ''data'', ascii ''c.bin''],
            PurePath [] [ascii ''data'', ascii ''d.txt'']]
   \<and> stat example_fs_reordered (Path (ascii ''data/''))
     = Found (Directory (Entries [ascii ''sub'', ascii ''d.txt'', ascii ''c.bin'',
         ascii ''b.txt'', ascii ''a.txt'']))
   \<and> mset [ascii ''sub'', ascii ''d.txt'', ascii ''c.bin'', ascii ''b.txt'', ascii ''a.txt'']
     = mset [ascii ''b.txt'', ascii ''a.txt'', ascii ''sub'', ascii ''c.bin'', ascii ''d.txt'']
   \<and> list_files example_fs_reordered (Path (ascii ''data/''))
     = Inr [PurePath [] [ascii ''data'', ascii ''a.txt''],
            PurePath [] [ascii ''data'', ascii ''b.txt''],
            PurePath [] [ascii ''data'', ascii ''c.bin''],
            PurePath [] [ascii ''data'', ascii ''d.txt'']]"
proof -
  let ?names = "[ascii ''b.txt'', ascii ''a.txt'', ascii ''sub'', ascii ''c.bin'', ascii ''d.txt'']"
  let ?names' = "[ascii ''sub'', ascii ''d.txt'', ascii ''c.bin'', ascii ''b.txt'', ascii ''a.txt'']"
  have perm: "mset ?names' = mset ?names"
    by (simp add: ac_simps)
  from list_files_directory [OF example_data_dir example_data_is_file] obtain files
    where f: "list_files example_fs (Path (ascii ''data/'')) = Inr files"
      and d: "\<forall>fs' names'. stat fs' (Path (ascii ''data/'')) = Found (Directory (Entries names'))
            \<and> mset names' = mset ?names
            \<and> (\<forall>n\<in>set ?names. is_file fs' (child (Path (ascii ''data/'')) n)
                  = is_file example_fs (child (Path (ascii ''data/'')) n)) \<longrightarrow>
           list_files fs' (Path (ascii ''data/'')) = Inr files"
    by blast
  from d example_reordered_dir perm example_reordered_is_file
  have "list_files example_fs_reordered (Path (ascii ''data/'')) = Inr files"
    by blast
  with f have "list_files example_fs_reordered (Path (ascii ''data/''))
      = list_files example_fs (Path (ascii ''data/''))"
    by simp
  with perm example_data_dir example_reordered_dir example_list_files show ?thesis
    by (simp only: simp_thms)
qed

text \<open>
  Claim C4, as stated, fails. No file can have the name \<open>long_name\<close> of 300
  characters, so the path does not exist, but \<^verbatim>\<open>exists()\<close> does not answer \<^verbatim>\<open>False\<close>:
  it raises the \<^verbatim>\<open>OSError\<close> of \<^verbatim>\<open>stat\<close> (\<^verbatim>\<open>ENAMETOOLONG\<close>), \<^verbatim>\<open>list_files\<close> raises
  it, and the run in directory mode ends with it, nothing printed, exit status 1.
\<close>

theorem list_files_missing_path_counterexample:
  "node_at example_fs (Path long_name)
     = Inaccessible OSError (ascii ''[Errno 36] File name too long: '' @ [39] @ long_name @ [39])
   \<and> list_files example_fs (Path long_name)
     = Inl (Exception OSError
         (ascii ''[Errno 36] File name too long: '' @ [39] @ long_name @ [39]))
   \<and> main (\<lambda>v. []) (\<lambda>s. None) example_fs (default_args\<lparr>data_dir := long_name\<rparr>)
     = \<lparr>stdout = [], files_after = example_fs,
        raised = Some (Exception OSError
          (ascii ''[Errno 36] File name too long: '' @ [39] @ long_name @ [39]))\<rparr>
   \<and> exit_code (main (\<lambda>v. []) (\<lambda>s. None) example_fs (default_args\<lparr>data_dir := long_name\<rparr>)) = 1"
proof -
  let ?a = "default_args\<lparr>data_dir := long_name\<rparr>"
  let ?e = "Exception OSError
         (ascii ''[Errno 36] File name too long: '' @ [39] @ long_name @ [39])"
  have l: "list_files example_fs (Path long_name) = Inl ?e"
    using example_long_name_exists by (rule list_files_exists_raises)
  have "given (file ?a) = None" "list_files example_fs (Path (data_dir ?a)) = Inl ?e"
    by (simp_all add: default_args_def l)
  then have m: "main (\<lambda>v. []) (\<lambda>s. None) example_fs ?a
     = \<lparr>stdout = [], files_after = example_fs, raised = Some ?e\<rparr>"
    by (rule main_discovery_raises)
  then have "exit_code (main (\<lambda>v. []) (\<lambda>s. None) example_fs ?a) = 1" by simp
  with l m example_long_name_lookup show ?thesis by (simp only: simp_thms)
qed

text \<open>
  Claim C4, amended. For every path for which \<^verbatim>\<open>exists()\<close> answers \<^verbatim>\<open>False\<close> (nothing
  is found there), \<^verbatim>\<open>list_files\<close> returns the empty list; when \<^verbatim>\<open>exists()\<close> raises,
  \<^verbatim>\<open>list_files\<close> raises the same exception. A run in directory mode on a data
  directory for which \<^verbatim>\<open>exists()\<close> answers \<^verbatim>\<open>False\<close> reports 0 files and emits the
  JSON text of \<^verbatim>\<open>{"files": []}\<close>, on standard output or into the output file, and
  ends with exit status 0, provided that standard output takes the lines and the
  output file, if one is named, can be written.
\<close>

theorem list_files_missing_path:
  "(exists_path fs p = Inr False \<longrightarrow> list_files fs p = Inr [])
   \<and> (\<forall>e. exists_path fs p = Inl e \<longrightarrow> list_files fs p = Inl e)
   \<and> (given (file a) = None \<and> exists_path fs (Path (data_dir a)) = Inr False
        \<and> enc (ascii ''[intelligence] discovered 0 files in '' @ str_path (Path (data_dir a)))
            = None \<longrightarrow>
        (given (output a) = None \<and> enc (dumps (Dict [(ascii ''files'', List [])])) = None
           \<longrightarrow>
           main dumps enc fs a =
             \<lparr>stdout = [ascii ''[intelligence] discovered 0 files in ''
                          @ str_path (Path (data_dir a)),
                        dumps (Dict [(ascii ''files'', List [])])],
              files_after = fs, raised = None\<rparr>
           \<and> exit_code (main dumps enc fs a) = 0)
      \<and> (\<forall>out fs'. given (output a) = Some out
             \<and> write_text fs (Path out) (dumps (Dict [(ascii ''files'', List [])])) = Inr fs'
             \<and> enc (ascii ''[intelligence] written output to '' @ str_path (Path out)) = None
           \<longrightarrow>
           main dumps enc fs a =
             \<lparr>stdout = [ascii ''[intelligence] discovered 0 files in ''
                          @ str_path (Path (data_dir a)),
                        ascii ''[intelligence] written output to '' @ str_path (Path out)],
              files_after = fs', raised = None\<rparr>
           \<and> exit_code (main dumps enc fs a) = 0))"
proof (intro conjI allI impI)
  assume "exists_path fs p = Inr False"
  then show "list_files fs p = Inr []" by (rule list_files_missing)
next
  fix e assume "exists_path fs p = Inl e"
  then show "list_files fs p = Inl e" by (rule list_files_exists_raises)
next
  have line: "ascii ''[intelligence] discovered '' @ str_nat 0
      @ ascii '' files in '' @ s = ascii ''[intelligence] discovered 0 files in '' @ s" for s
    by (simp add: str_nat.simps ascii_def)
  have none: "process_files fs [] = Inr (Dict [(ascii ''files'', List [])])"
    by (simp add: process_files_def)
  {
    assume a: "given (file a) = None \<and> exists_path fs (Path (data_dir a)) = Inr False
        \<and> enc (ascii ''[intelligence] discovered 0 files in '' @ str_path (Path (data_dir a)))
            = None"
      and o: "given (output a) = None \<and> enc (dumps (Dict [(ascii ''files'', List [])])) = None"
    from a have l: "list_files fs (Path (data_dir a)) = Inr []" by (simp add: list_files_missing)
    from main_directory_mode [of a fs "[]" "Dict [(ascii ''files'', List [])]" enc dumps]
      a l none o
    show m: "main dumps enc fs a =
             \<lparr>stdout = [ascii ''[intelligence] discovered 0 files in ''
                          @ str_path (Path (data_dir a)),
                        dumps (Dict [(ascii ''files'', List [])])],
              files_after = fs, raised = None\<rparr>"
      by (simp add: line)
    then show "exit_code (main dumps enc fs a) = 0" by simp
  }
  {
    fix out fs'
    assume a: "given (file a) = None \<and> exists_path fs (Path (data_dir a)) = Inr False
        \<and> enc (ascii ''[intelligence] discovered 0 files in '' @ str_path (Path (data_dir a)))
            = None"
      and o: "given (output a) = Some out
             \<and> write_text fs (Path out) (dumps (Dict [(ascii ''files'', List [])])) = Inr fs'
             \<and> enc (ascii ''[intelligence] written output to '' @ str_path (Path out)) = None"
    from a have l: "list_files fs (Path (data_dir a)) = Inr []" by (simp add: list_files_missing)
    from main_directory_mode_written
      [of a fs "[]" "Dict [(ascii ''files'', List [])]" out dumps fs' enc] a l none o
    show m: "main dumps enc fs a =
             \<lparr>stdout = [ascii ''[intelligence] discovered 0 files in ''
                          @ str_path (Path (data_dir a)),
                        ascii ''[intelligence] written output to '' @ str_path (Path out)],
              files_after = fs', raised = None\<rparr>"
      by (simp add: line)
    then show "exit_code (main dumps enc fs a) = 0" by simp
  }
qed

theorem list_files_missing_path_witness:
  "exists_path example_fs (Path (ascii ''nonexistent/'')) = Inr False
   \<and> list_files example_fs (Path (ascii ''nonexistent/'')) = Inr []
   \<and> exists_path example_fs (Path long_name)
       = Inl (Exception OSError
           (ascii ''[Errno 36] File name too long: '' @ [39] @ long_name @ [39]))
   \<and> list_files example_fs (Path long_name)
       = Inl (Exception OSError
           (ascii ''[Errno 36] File name too long: '' @ [39] @ long_name @ [39]))
   \<and> given (file (default_args\<lparr>data_dir := ascii ''nonexistent/''\<rparr>)) = None
   \<and> given (output (default_args\<lparr>data_dir := ascii ''nonexistent/''\<rparr>)) = None
   \<and> main (\<lambda>v. []) (\<lambda>s. None) example_fs (default_args\<lparr>data_dir := ascii ''nonexistent/''\<rparr>) =
        \<lparr>stdout = [ascii ''[intelligence] discovered 0 files in nonexistent'', []],
         files_after = example_fs, raised = None\<rparr>
   \<and> exit_code (main (\<lambda>v. []) (\<lambda>s. None) example_fs
        (default_args\<lparr>data_dir := ascii ''nonexistent/''\<rparr>)) = 0
   \<and> given (output (default_args\<lparr>data_dir := ascii ''nonexistent/'',
          output := Some (ascii ''out.json'')\<rparr>)) = Some (ascii ''out.json'')
   \<and> \<not> isl (write_text example_fs (Path (ascii ''out.json''))
          ((\<lambda>v. []) (Dict [(ascii ''files'', List [])])))
   \<and> exit_code (main (\<lambda>v. []) (\<lambda>s. None) example_fs
        (default_args\<lparr>data_dir := ascii ''nonexistent/'',
          output := Some (ascii ''out.json'')\<rparr>)) = 0"
proof -
  let ?a = "default_args\<lparr>data_dir := ascii ''nonexistent/''\<rparr>"
  let ?b = "default_args\<lparr>data_dir := ascii ''nonexistent/'', output := Some (ascii ''out.json'')\<rparr>"
  let ?e = "Exception OSError
           (ascii ''[Errno 36] File name too long: '' @ [39] @ long_name @ [39])"
  have g: "given (file ?a) = None" "given (output ?a) = None" "data_dir ?a = ascii ''nonexistent/''"
    "given (file ?b) = None" "given (output ?b) = Some (ascii ''out.json'')"
    "data_dir ?b = ascii ''nonexistent/''"
    by (simp_all add: default_args_def)
  have 1: "list_files example_fs (Path (ascii ''nonexistent/'')) = Inr []"
    by (rule list_files_missing_path [THEN conjunct1, rule_format]) (rule example_nonexistent)
  have 0: "list_files example_fs (Path long_name) = Inl ?e"
    by (rule list_files_missing_path [THEN conjunct2, THEN conjunct1, rule_format])
      (rule example_long_name_exists)
  have "main (\<lambda>v. []) (\<lambda>s. None) example_fs ?a =
      \<lparr>stdout = [ascii ''[intelligence] discovered 0 files in '' @ str_path (Path (data_dir ?a)),
                 []],
       files_after = example_fs, raised = None\<rparr>
      \<and> exit_code (main (\<lambda>v. []) (\<lambda>s. None) example_fs ?a) = 0"
    by (rule list_files_missing_path [THEN conjunct2, THEN conjunct2, rule_format,
          THEN conjunct1, rule_format])
      (simp_all only: g example_nonexistent simp_thms)
  then have 2: "main (\<lambda>v. []) (\<lambda>s. None) example_fs ?a =
      \<lparr>stdout = [ascii ''[intelligence] discovered 0 files in nonexistent'', []],
       files_after = example_fs, raised = None\<rparr>"
    and 3: "exit_code (main (\<lambda>v. []) (\<lambda>s. None) example_fs ?a) = 0"
    by (simp_all only: g example_str_path_nonexistent) (simp_all add: ascii_def)
  obtain fs' where w: "write_text example_fs (Path (ascii ''out.json'')) [] = Inr fs'"
    using example_write_out_json [of "[]"]
    by (cases "write_text example_fs (Path (ascii ''out.json'')) []") auto
  have 4: "exit_code (main (\<lambda>v. []) (\<lambda>s. None) example_fs ?b) = 0"
    using list_files_missing_path [THEN conjunct2, THEN conjunct2, rule_format,
        THEN conjunct2, rule_format,
        of ?b example_fs "\<lambda>s. None" "ascii ''out.json''" "\<lambda>v. []" fs'] g example_nonexistent w
    by simp
  from 0 1 2 3 4 g example_nonexistent example_long_name_exists
    example_write_out_json [of "[]"]
  show ?thesis by (simp only: simp_thms)
qed

text \<open>
  Claim C10. \<^verbatim>\<open>list_files\<close> returns a list only for paths where nothing is found or
  that are directories. For a path that is a regular file, so one that exists, it
  raises the \<^verbatim>\<open>NotADirectoryError\<close> of \<^verbatim>\<open>iterdir\<close>, and a run in directory mode on such
  a path ends with this exception, before anything is printed, with exit status 1.
\<close>

theorem list_files_on_regular_file:
  "((\<exists>files. list_files fs p = Inr files) \<longrightarrow>
      stat fs p = Missing \<or> stat fs p = Too_many_links
      \<or> (\<exists>names. stat fs p = Found (Directory (Entries names))))
   \<and> (\<forall>c. stat fs p = Found (Regular c) \<longrightarrow>
         exists_path fs p = Inr True \<and> is_file fs p = Inr True
         \<and> list_files fs p = Inl (os_error fs NotADirectoryError p))
   \<and> (\<forall>c. given (file a) = None \<and> stat fs (Path (data_dir a)) = Found (Regular c) \<longrightarrow>
         main dumps enc fs a =
           \<lparr>stdout = [], files_after = fs,
            raised = Some (os_error fs NotADirectoryError (Path (data_dir a)))\<rparr>
         \<and> exit_code (main dumps enc fs a) = 1)"
proof (intro conjI allI impI)
  assume "\<exists>files. list_files fs p = Inr files"
  then show "stat fs p = Missing \<or> stat fs p = Too_many_links
      \<or> (\<exists>names. stat fs p = Found (Directory (Entries names)))"
    by (auto simp: list_files_def exists_path_def iterdir_def
        split: stat_result.splits node.splits listing.splits sum.splits if_splits)
next
  fix c assume c: "stat fs p = Found (Regular c)"
  then show "exists_path fs p = Inr True" by (simp add: exists_path_def)
  from c show "is_file fs p = Inr True" by (simp add: is_file_def)
  from c show "list_files fs p = Inl (os_error fs NotADirectoryError p)"
    by (simp add: list_files_def exists_path_def iterdir_def)
next
  fix c
  assume h: "given (file a) = None \<and> stat fs (Path (data_dir a)) = Found (Regular c)"
  then have "list_files fs (Path (data_dir a))
      = Inl (os_error fs NotADirectoryError (Path (data_dir a)))"
    by (simp add: list_files_def exists_path_def iterdir_def)
  with h show m: "main dumps enc fs a =
           \<lparr>stdout = [], files_after = fs,
            raised = Some (os_error fs NotADirectoryError (Path (data_dir a)))\<rparr>"
    by (simp add: main_discovery_raises)
  then show "exit_code (main dumps enc fs a) = 1" by (simp add: os_error_def)
qed

theorem list_files_on_regular_file_witness:
  "list_files example_fs (Path (ascii ''data/'')) =
     Inr [PurePath [] [ascii ''data'', ascii ''a.txt''],
          PurePath [] [ascii ''data'', ascii ''b.txt''],
          PurePath [] [ascii ''data'', ascii ''c.bin''],
          PurePath [] [ascii ''data'', ascii ''d.txt'']]
   \<and> stat example_fs (Path (ascii ''data/''))
     = Found (Directory (Entries [ascii ''b.txt'', ascii ''a.txt'', ascii ''sub'',
         ascii ''c.bin'', ascii ''d.txt'']))
   \<and> stat example_fs (Path (ascii ''data/a.txt'')) = Found (Regular (Text (ascii ''xy'')))
   \<and> exists_path example_fs (Path (ascii ''data/a.txt'')) = Inr True
   \<and> is_file example_fs (Path (ascii ''data/a.txt'')) = Inr True
   \<and> list_files example_fs (Path (ascii ''data/a.txt''))
       = Inl (Exception NotADirectoryError
           (ascii ''[Errno 20] Not a directory: '' @ [39] @ ascii ''data/a.txt'' @ [39]))
   \<and> given (file (default_args\<lparr>data_dir := ascii ''data/a.txt''\<rparr>)) = None
   \<and> exit_code (main (\<lambda>v. []) (\<lambda>s. None) example_fs
        (default_args\<lparr>data_dir := ascii ''data/a.txt''\<rparr>)) = 1"
proof -
  let ?p = "Path (ascii ''data/a.txt'')"
  let ?a = "default_args\<lparr>data_dir := ascii ''data/a.txt''\<rparr>"
  have g: "given (file ?a) = None" "data_dir ?a = ascii ''data/a.txt''"
    by (simp_all add: default_args_def)
  have e: "os_error example_fs NotADirectoryError ?p
      = Exception NotADirectoryError
           (ascii ''[Errno 20] Not a directory: '' @ [39] @ ascii ''data/a.txt'' @ [39])"
    by (simp add: example_simps)
  note inst = list_files_on_regular_file [of example_fs ?p ?a "\<lambda>v. []" "\<lambda>s. None"]
  have 0: "stat example_fs (Path (ascii ''data/'')) = Missing
      \<or> stat example_fs (Path (ascii ''data/'')) = Too_many_links
      \<or> (\<exists>names. stat example_fs (Path (ascii ''data/'')) = Found (Directory (Entries names)))"
    by (rule list_files_on_regular_file [THEN conjunct1, rule_format])
      (simp add: example_list_files)
  have 1: "exists_path example_fs ?p = Inr True \<and> is_file example_fs ?p = Inr True
      \<and> list_files example_fs ?p = Inl (os_error example_fs NotADirectoryError ?p)"
    by (rule inst [THEN conjunct2, THEN conjunct1, rule_format]) (rule example_a_txt_node)
  have 2: "exit_code (main (\<lambda>v. []) (\<lambda>s. None) example_fs ?a) = 1"
    using inst [THEN conjunct2, THEN conjunct2, rule_format, of "Text (ascii ''xy'')"]
      g example_a_txt_node by (simp add: os_error_def)
  from 1 2 e g example_a_txt_node example_list_files example_data_dir show ?thesis by simp
qed

subsection \<open>The file named on the command line\<close>

text \<open>
  Claim C9, as stated, fails. With \<^verbatim>\<open>--file\<close> naming \<open>long_name\<close>, a path that does
  not exist, \<^verbatim>\<open>p.exists()\<close> raises the \<^verbatim>\<open>OSError\<close> of \<^verbatim>\<open>stat\<close> (\<^verbatim>\<open>ENAMETOOLONG\<close>):
  the run prints no line and ends with exit status 1, not 2.
\<close>

theorem main_file_not_found_counterexample:
  "given (file (default_args\<lparr>file := Some long_name\<rparr>)) = Some long_name
   \<and> node_at example_fs (Path long_name)
     = Inaccessible OSError (ascii ''[Errno 36] File name too long: '' @ [39] @ long_name @ [39])
   \<and> main (\<lambda>v. []) (\<lambda>s. None) example_fs (default_args\<lparr>file := Some long_name\<rparr>)
     = \<lparr>stdout = [], files_after = example_fs,
        raised = Some (Exception OSError
          (ascii ''[Errno 36] File name too long: '' @ [39] @ long_name @ [39]))\<rparr>
   \<and> exit_code (main (\<lambda>v. []) (\<lambda>s. None) example_fs (default_args\<lparr>file := Some long_name\<rparr>)) = 1"
proof -
  let ?a = "default_args\<lparr>file := Some long_name\<rparr>"
  let ?e = "Exception OSError
         (ascii ''[Errno 36] File name too long: '' @ [39] @ long_name @ [39])"
  have g: "given (file ?a) = Some long_name"
    by (simp add: default_args_def long_name_def)
  then have m: "main (\<lambda>v. []) (\<lambda>s. None) example_fs ?a
     = \<lparr>stdout = [], files_after = example_fs, raised = Some ?e\<rparr>"
    using example_long_name_exists by (rule main_exists_raises)
  then have "exit_code (main (\<lambda>v. []) (\<lambda>s. None) example_fs ?a) = 1" by simp
  with g m example_long_name_lookup show ?thesis by (simp only: simp_thms)
qed

text \<open>
  Claim C9, amended. When \<^verbatim>\<open>--file\<close> is given (with a value that is not empty),
  \<^verbatim>\<open>exists()\<close> answers \<^verbatim>\<open>False\<close> for the path and standard output takes the line, the
  run prints the one line \<^verbatim>\<open>[intelligence] error: file not found: \<close>\<open>path\<close>, writes
  nothing, and ends by \<^verbatim>\<open>SystemExit(2)\<close>, exit status 2. When \<^verbatim>\<open>exists()\<close> raises,
  the run ends with that exception and prints nothing. In directory mode a data
  directory for which \<^verbatim>\<open>exists()\<close> answers \<^verbatim>\<open>False\<close> is not fatal: printing to
  standard output, the run ends with exit status 0.
\<close>

theorem main_file_not_found:
  assumes "given (file a) = Some f"
  shows "(exists_path fs (Path f) = Inr False
          \<and> enc (ascii ''[intelligence] error: file not found: '' @ str_path (Path f)) = None
          \<longrightarrow>
          main dumps enc fs a =
            \<lparr>stdout = [ascii ''[intelligence] error: file not found: '' @ str_path (Path f)],
             files_after = fs, raised = Some (SystemExit 2)\<rparr>
          \<and> exit_code (main dumps enc fs a) = 2)
       \<and> (\<forall>e. exists_path fs (Path f) = Inl e \<longrightarrow>
             main dumps enc fs a = \<lparr>stdout = [], files_after = fs, raised = Some e\<rparr>)
       \<and> (\<forall>b. given (file b) = None \<and> exists_path fs (Path (data_dir b)) = Inr False
               \<and> given (output b) = None \<and> (\<forall>s. enc s = None) \<longrightarrow>
             raised (main dumps enc fs b) = None \<and> exit_code (main dumps enc fs b) = 0)"
proof (intro conjI allI impI)
  assume h: "exists_path fs (Path f) = Inr False
      \<and> enc (ascii ''[intelligence] error: file not found: '' @ str_path (Path f)) = None"
  with assms show m: "main dumps enc fs a =
            \<lparr>stdout = [ascii ''[intelligence] error: file not found: '' @ str_path (Path f)],
             files_after = fs, raised = Some (SystemExit 2)\<rparr>"
    by (simp add: main_def print_line_accepted)
  then show "exit_code (main dumps enc fs a) = 2" by simp
next
  fix e assume "exists_path fs (Path f) = Inl e"
  with assms show "main dumps enc fs a = \<lparr>stdout = [], files_after = fs, raised = Some e\<rparr>"
    by (rule main_exists_raises)
next
  fix b :: args
  assume b: "given (file b) = None \<and> exists_path fs (Path (data_dir b)) = Inr False
               \<and> given (output b) = None \<and> (\<forall>s. enc s = None)"
  then have "list_files fs (Path (data_dir b)) = Inr []" by (simp add: list_files_missing)
  with b show r: "raised (main dumps enc fs b) = None"
    by (intro main_completes) auto
  then show "exit_code (main dumps enc fs b) = 0" by simp
qed

theorem main_file_not_found_witness:
  "given (file (default_args\<lparr>file := Some (ascii ''missing.txt'')\<rparr>)) = Some (ascii ''missing.txt'')
   \<and> exists_path example_fs (Path (ascii ''missing.txt'')) = Inr False
   \<and> main (\<lambda>v. []) (\<lambda>s. None) example_fs (default_args\<lparr>file := Some (ascii ''missing.txt'')\<rparr>) =
        \<lparr>stdout = [ascii ''[intelligence] error: file not found: missing.txt''],
         files_after = example_fs, raised = Some (SystemExit 2)\<rparr>
   \<and> exit_code (main (\<lambda>v. []) (\<lambda>s. None) example_fs
        (default_args\<lparr>file := Some (ascii ''missing.txt'')\<rparr>)) = 2
   \<and> given (file (default_args\<lparr>file := Some long_name\<rparr>)) = Some long_name
   \<and> exists_path example_fs (Path long_name)
       = Inl (Exception OSError
           (ascii ''[Errno 36] File name too long: '' @ [39] @ long_name @ [39]))
   \<and> raised (main (\<lambda>v. []) (\<lambda>s. None) example_fs (default_args\<lparr>file := Some long_name\<rparr>))
       = Some (Exception OSError
           (ascii ''[Errno 36] File name too long: '' @ [39] @ long_name @ [39]))
   \<and> given (file (default_args\<lparr>data_dir := ascii ''nonexistent/''\<rparr>)) = None
   \<and> exists_path example_fs (Path (data_dir (default_args\<lparr>data_dir := ascii ''nonexistent/''\<rparr>)))
       = Inr False
   \<and> given (output (default_args\<lparr>data_dir := ascii ''nonexistent/''\<rparr>)) = None
   \<and> exit_code (main (\<lambda>v. []) (\<lambda>s. None) example_fs
        (default_args\<lparr>data_dir := ascii ''nonexistent/''\<rparr>)) = 0"
proof -
  let ?a = "default_args\<lparr>file := Some (ascii ''missing.txt'')\<rparr>"
  let ?b = "default_args\<lparr>data_dir := ascii ''nonexistent/''\<rparr>"
  let ?c = "default_args\<lparr>file := Some long_name\<rparr>"
  have ga: "given (file ?a) = Some (ascii ''missing.txt'')"
    by (simp add: default_args_def)
  have gb: "given (file ?b) = None" "given (output ?b) = None"
    "exists_path example_fs (Path (data_dir ?b)) = Inr False"
    by (simp_all add: default_args_def example_nonexistent)
  have gc: "given (file ?c) = Some long_name"
    by (simp add: default_args_def long_name_def)
  have s: "str_path (Path (ascii ''missing.txt'')) = ascii ''missing.txt''"
    by (simp add: str_path_def Path_def ascii_def slash_def)
  note inst = main_file_not_found [OF ga, of example_fs "\<lambda>s. None" "\<lambda>v. []"]
  have "main (\<lambda>v. []) (\<lambda>s. None) example_fs ?a =
        \<lparr>stdout = [ascii ''[intelligence] error: file not found: ''
                     @ str_path (Path (ascii ''missing.txt''))],
         files_after = example_fs, raised = Some (SystemExit 2)\<rparr>
      \<and> exit_code (main (\<lambda>v. []) (\<lambda>s. None) example_fs ?a) = 2"
    by (rule inst [THEN conjunct1, rule_format]) (simp add: example_missing_exists)
  then have 1: "main (\<lambda>v. []) (\<lambda>s. None) example_fs ?a =
        \<lparr>stdout = [ascii ''[intelligence] error: file not found: missing.txt''],
         files_after = example_fs, raised = Some (SystemExit 2)\<rparr>"
    and 2: "exit_code (main (\<lambda>v. []) (\<lambda>s. None) example_fs ?a) = 2"
    by (simp_all only: s) (simp_all add: ascii_def)
  have 3: "exit_code (main (\<lambda>v. []) (\<lambda>s. None) example_fs ?b) = 0"
    using inst [THEN conjunct2, THEN conjunct2, rule_format, of ?b] gb by simp
  have "main (\<lambda>v. []) (\<lambda>s. None) example_fs ?c
      = \<lparr>stdout = [], files_after = example_fs,
         raised = Some (Exception OSError
           (ascii ''[Errno 36] File name too long: '' @ [39] @ long_name @ [39]))\<rparr>"
    by (rule main_file_not_found [OF gc, THEN conjunct2, THEN conjunct1, rule_format])
      (rule example_long_name_exists)
  then have 4: "raised (main (\<lambda>v. []) (\<lambda>s. None) example_fs ?c)
       = Some (Exception OSError
           (ascii ''[Errno 36] File name too long: '' @ [39] @ long_name @ [39]))"
    by simp
  from 1 2 3 4 ga gb gc example_missing_exists example_long_name_exists show ?thesis
    by (simp only: simp_thms)
qed

end
